theory Spec2Isabelle
  imports Main
begin

section \<open>Python values used by the CFDI analyzer\<close>

text \<open>
  A string is the list of the characters of a Python \<open>str\<close>, in whatever encoding of
  Unicode text into 8-bit characters; equality, emptiness and the comparison with an
  ASCII literal do not depend on it. \<open>str.upper()\<close> and \<open>str.strip()\<close> follow the
  Unicode character database (full case mapping, Unicode white space). They are not
  defined here: they are the two parameters below, and whatever is proved holds for every
  pair of functions, so for Python's.
\<close>

record py_str =
  str_upper :: "string \<Rightarrow> string"
  str_strip :: "string \<Rightarrow> string"

definition startswith :: "string \<Rightarrow> string \<Rightarrow> bool" where
  "startswith s p = (take (length p) s = p)"

text \<open>
  Python's \<open>a or b\<close> on optional strings: \<open>a\<close> when it is truthy (neither \<open>None\<close> nor
  the empty string), else \<open>b\<close>.
\<close>

definition truthy :: "string option \<Rightarrow> bool" where
  "truthy v = (case v of None \<Rightarrow> False | Some s \<Rightarrow> s \<noteq> [])"

definition or_opt :: "string option \<Rightarrow> string option \<Rightarrow> string option" where
  "or_opt a b = (if truthy a then a else b)"

definition or_str :: "string option \<Rightarrow> string \<Rightarrow> string" where
  "or_str a b = (case a of None \<Rightarrow> b | Some s \<Rightarrow> if s \<noteq> [] then s else b)"

text \<open>
  \<open>d[k] = d.get(k, 0.0) + v\<close> on a dictionary, and \<open>d[k] += v\<close> on a
  \<open>defaultdict(float)\<close>: the entry of an existing key is updated in place, a new key is
  appended (Python dictionaries keep insertion order).
\<close>

fun dict_add :: "'k \<Rightarrow> 'a \<Rightarrow> ('k \<times> 'a) list \<Rightarrow> ('k \<times> ('a::{zero,plus})) list" where
  "dict_add k v [] = [(k, 0 + v)]"
| "dict_add k v ((k', w) # d) =
     (if k' = k then (k', w + v) # d else (k', w) # dict_add k v d)"

section \<open>models.py\<close>

text \<open>
  Amounts are Python floats. They are kept as a type parameter \<open>'a\<close> with a zero, an
  addition and a subtraction, so that nothing below depends on a law of arithmetic that
  floating-point numbers do not have.
\<close>

record datetime =
  year :: nat
  month :: nat
  day :: nat
  hour :: nat
  minute :: nat
  second :: nat

record 'a Concepto =
  uuid :: string
  clave_prod_serv :: string
  cantidad :: 'a
  clave_unidad :: string
  unidad :: string
  descripcion :: string
  valor_unitario :: 'a
  importe :: 'a
  descuento :: 'a
  impuestos_traslado :: "(string option \<times> 'a) list"
  impuestos_retencion :: "(string option \<times> 'a) list"

record 'a CFDI =
  uuid :: string
  fecha :: "datetime option"
  tipo :: string
  serie :: string
  folio :: string
  emisor_rfc :: string
  emisor_nombre :: string
  emisor_regimen :: string
  receptor_rfc :: string
  receptor_nombre :: string
  receptor_regimen :: string
  uso_cfdi :: string
  subtotal :: 'a
  descuento :: 'a
  total :: 'a
  moneda :: string
  tipo_cambio :: 'a
  forma_pago :: string
  metodo_pago :: string
  lugar_expedicion :: string
  iva_trasladado :: 'a
  isr_retenido :: 'a
  iva_retenido :: 'a
  ieps :: 'a
  num_conceptos :: int
  version :: string
  warnings :: "string list"
  clasificacion :: string

section \<open>classifier.py\<close>

text \<open>
  \<open>classify_cfdi(cfdi, user_rfc)\<close>. A dataclass instance is always truthy, so
  \<open>not cfdi\<close> holds for \<open>None\<close> only; \<open>not user_rfc\<close> holds for \<open>None\<close> and for the
  empty string.
\<close>

definition classify_cfdi :: "'z py_str_scheme \<Rightarrow> 'a CFDI option \<Rightarrow> string option \<Rightarrow> string" where
  "classify_cfdi env cfdi user_rfc =
     (case cfdi of
        None \<Rightarrow> ''No clasificado''
      | Some c \<Rightarrow>
          (case user_rfc of
             None \<Rightarrow> ''No clasificado''
           | Some u \<Rightarrow>
               if u = [] then ''No clasificado''
               else
                 let rfc_user = str_upper env (str_strip env u);
                     emisor = str_upper env (str_strip env (or_str (Some (emisor_rfc c)) ''''));
                     receptor = str_upper env (str_strip env (or_str (Some (receptor_rfc c)) ''''));
                     tipo' = str_upper env (or_str (Some (tipo c)) '''')
                 in if tipo' = ''I'' then
                      (if rfc_user = emisor then ''Ingresos''
                       else if rfc_user = receptor then ''Egresos''
                       else ''No clasificado'')
                    else ''No clasificado''))"

section \<open>The library calls of the parser\<close>

text \<open>
  An lxml element: its tag in Clark notation (\<open>{namespace-uri}local-name\<close>, or the bare
  local name outside every namespace), its attributes, the prefix-to-URI map in scope
  (\<open>None\<close> is the default namespace) and its child elements in document order.
\<close>

datatype element =
  Element (tag: string) (attrib: "(string \<times> string) list")
          (nsmap: "(string option \<times> string) list") (children: "element list")

datatype py_error = SyntaxError

text \<open>
  What the program takes from Python and lxml without defining it: the two string
  methods above, \<open>float(s)\<close> and
  \<open>datetime.fromisoformat(s)\<close>, which return \<open>None\<close> here where Python raises
  \<open>ValueError\<close>, and \<open>etree.parse(path).getroot()\<close>, \<open>None\<close> where it raises any
  exception (a missing file, a document that is not well-formed).
\<close>

record 'a py_env = py_str +
  float_of :: "string \<Rightarrow> 'a option"
  fromisoformat :: "string \<Rightarrow> datetime option"
  etree_parse :: "string \<Rightarrow> element option"

definition get_attr :: "element \<Rightarrow> string \<Rightarrow> string option" where
  "get_attr e name = map_of (attrib e) name"

text \<open>
  \<open>elem.findall(path, namespaces)\<close> and \<open>elem.find(path, namespaces)\<close> for a path of the
  form \<open>prefix:name\<close>, the only form the parser uses. lxml replaces the prefix by its URI
  and raises \<open>SyntaxError\<close> (prefix not found in prefix map) when the map has no such
  prefix; the children whose tag is the resolved name are the matches.
\<close>

definition resolve_path :: "(string \<rightharpoonup> string) \<Rightarrow> string \<Rightarrow> py_error + string" where
  "resolve_path ns path =
     (let prefix = takeWhile (\<lambda>c. c \<noteq> CHR '':'') path;
          name = drop (Suc (length prefix)) path
      in case ns prefix of
           None \<Rightarrow> Inl SyntaxError
         | Some uri \<Rightarrow> Inr (''{'' @ uri @ ''}'' @ name))"

definition findall :: "element \<Rightarrow> string \<Rightarrow> (string \<rightharpoonup> string) \<Rightarrow> py_error + element list" where
  "findall e path ns =
     (case resolve_path ns path of
        Inl err \<Rightarrow> Inl err
      | Inr t \<Rightarrow> Inr (filter (\<lambda>c. tag c = t) (children e)))"

definition find_elem :: "element \<Rightarrow> string \<Rightarrow> (string \<rightharpoonup> string) \<Rightarrow> py_error + element option" where
  "find_elem e path ns =
     (case findall e path ns of
        Inl err \<Rightarrow> Inl err
      | Inr [] \<Rightarrow> Inr None
      | Inr (x # _) \<Rightarrow> Inr (Some x))"

text \<open>A raised exception ends the computation; a returned value is passed on.\<close>

definition bind_err :: "'e + 'a \<Rightarrow> ('a \<Rightarrow> 'e + 'b) \<Rightarrow> 'e + 'b" where
  "bind_err m f = (case m of Inl err \<Rightarrow> Inl err | Inr x \<Rightarrow> f x)"

section \<open>utils.py\<close>

definition parse_iso_datetime :: "'a py_env \<Rightarrow> string \<Rightarrow> datetime option" where
  "parse_iso_datetime env dt_str =
     (if dt_str = [] then None
      else
        let s1 = (if last dt_str = CHR ''Z'' then butlast dt_str else dt_str);
            s2 = (if CHR ''.'' \<in> set s1 then takeWhile (\<lambda>c. c \<noteq> CHR ''.'') s1 else s1)
        in fromisoformat env s2)"

definition digit_char :: "nat \<Rightarrow> char" where
  "digit_char n = (''0123456789'' ! (n mod 10))"

fun digits_of :: "nat \<Rightarrow> string" where
  "digits_of n = (if n < 10 then [digit_char n] else digits_of (n div 10) @ [digit_char n])"

text \<open>The format \<open>{n:0wd}\<close> of a non-negative \<open>n\<close>: its decimal digits, zero-padded to
  width \<open>w\<close>.\<close>

definition zero_pad :: "nat \<Rightarrow> nat \<Rightarrow> string" where
  "zero_pad w n = (let ds = digits_of n in replicate (w - length ds) CHR ''0'' @ ds)"

definition month_key :: "datetime option \<Rightarrow> string" where
  "month_key date =
     (case date of
        None \<Rightarrow> ''''
      | Some d \<Rightarrow> zero_pad 4 (year d) @ ''-'' @ zero_pad 2 (month d))"

section \<open>parser\_cfdi.py\<close>

definition safe_float :: "('a::zero) py_env \<Rightarrow> string option \<Rightarrow> 'a" where
  "safe_float env v =
     (case v of
        None \<Rightarrow> 0
      | Some s \<Rightarrow> (case float_of env s of None \<Rightarrow> 0 | Some x \<Rightarrow> x))"

text \<open>
  The namespace map of \<open>parse_cfdi\<close>: the root's map with the default namespace (and an
  empty prefix) renamed to \<open>cfdi\<close>, a later entry replacing an earlier one of the same
  name, and the stamp namespace added under \<open>tfd\<close> when the root does not declare it.
\<close>

definition build_nsmap :: "element \<Rightarrow> (string \<rightharpoonup> string)" where
  "build_nsmap root =
     (let m = fold (\<lambda>kv m.
                 m((case fst kv of None \<Rightarrow> ''cfdi'' | Some p \<Rightarrow> if p \<noteq> [] then p else ''cfdi'')
                     \<mapsto> snd kv))
               (nsmap root) Map.empty
      in case m ''tfd'' of
           None \<Rightarrow> m(''tfd'' \<mapsto> ''http://www.sat.gob.mx/TimbreFiscalDigital'')
         | Some _ \<Rightarrow> m)"

text \<open>The four running tax totals of \<open>parse_cfdi\<close> (its local variables).\<close>

record 'a tax_acc =
  acc_iva_trasladado :: 'a
  acc_isr_retenido :: 'a
  acc_iva_retenido :: 'a
  acc_ieps_total :: 'a

text \<open>One document-level \<open>Traslado\<close>: only tax code 002 is accumulated.\<close>

definition doc_traslado_step :: "'a py_env \<Rightarrow> element \<Rightarrow> 'a tax_acc \<Rightarrow> ('a::{zero,plus}) tax_acc" where
  "doc_traslado_step env traslado acc =
     (let impuesto = get_attr traslado ''Impuesto'';
          importe' = safe_float env (get_attr traslado ''Importe'')
      in if impuesto = Some ''002''
         then acc\<lparr>acc_iva_trasladado := acc_iva_trasladado acc + importe'\<rparr>
         else acc)"

text \<open>One \<open>Retencion\<close>, at the document level or inside a line item.\<close>

definition retencion_totals :: "string option \<Rightarrow> 'a \<Rightarrow> 'a tax_acc \<Rightarrow> ('a::{zero,plus}) tax_acc" where
  "retencion_totals impuesto importe' acc =
     (if impuesto = Some ''001'' then acc\<lparr>acc_isr_retenido := acc_isr_retenido acc + importe'\<rparr>
      else if impuesto = Some ''002'' then acc\<lparr>acc_iva_retenido := acc_iva_retenido acc + importe'\<rparr>
      else if impuesto = Some ''003'' then acc\<lparr>acc_ieps_total := acc_ieps_total acc + importe'\<rparr>
      else acc)"

definition doc_retencion_step :: "'a py_env \<Rightarrow> element \<Rightarrow> 'a tax_acc \<Rightarrow> ('a::{zero,plus}) tax_acc" where
  "doc_retencion_step env retencion acc =
     retencion_totals (get_attr retencion ''Impuesto'')
       (safe_float env (get_attr retencion ''Importe'')) acc"

text \<open>The block \<open>Impuestos globales\<close>: the document-level tax nodes of the root.\<close>

definition doc_impuestos ::
  "'a py_env \<Rightarrow> element \<Rightarrow> (string \<rightharpoonup> string) \<Rightarrow> 'a tax_acc \<Rightarrow> py_error + ('a::{zero,plus}) tax_acc" where
  "doc_impuestos env root ns acc =
     bind_err (find_elem root ''cfdi:Impuestos'' ns) (\<lambda>impuestos_node.
       case impuestos_node of
         None \<Rightarrow> Inr acc
       | Some node \<Rightarrow>
           bind_err (find_elem node ''cfdi:Traslados'' ns) (\<lambda>traslados.
           bind_err (case traslados of
                       None \<Rightarrow> Inr acc
                     | Some t \<Rightarrow> bind_err (findall t ''cfdi:Traslado'' ns)
                                  (\<lambda>ts. Inr (fold (doc_traslado_step env) ts acc))) (\<lambda>acc1.
           bind_err (find_elem node ''cfdi:Retenciones'' ns) (\<lambda>retenciones.
             case retenciones of
               None \<Rightarrow> Inr acc1
             | Some r \<Rightarrow> bind_err (findall r ''cfdi:Retencion'' ns)
                          (\<lambda>rs. Inr (fold (doc_retencion_step env) rs acc1))))))"

text \<open>One \<open>Traslado\<close> of a line item: the item's own mapping, then the document totals.\<close>

definition concepto_traslado_step ::
  "'a py_env \<Rightarrow> element \<Rightarrow> 'a Concepto \<times> 'a tax_acc \<Rightarrow> ('a::{zero,plus}) Concepto \<times> 'a tax_acc" where
  "concepto_traslado_step env tr st =
     (case st of (c, acc) \<Rightarrow>
        let impuesto = get_attr tr ''Impuesto'';
            importe' = safe_float env (get_attr tr ''Importe'');
            c' = c\<lparr>impuestos_traslado := dict_add impuesto importe' (impuestos_traslado c)\<rparr>
        in (c', if impuesto = Some ''002''
                then acc\<lparr>acc_iva_trasladado := acc_iva_trasladado acc + importe'\<rparr>
                else if impuesto = Some ''003''
                then acc\<lparr>acc_ieps_total := acc_ieps_total acc + importe'\<rparr>
                else acc))"

definition concepto_retencion_step ::
  "'a py_env \<Rightarrow> element \<Rightarrow> 'a Concepto \<times> 'a tax_acc \<Rightarrow> ('a::{zero,plus}) Concepto \<times> 'a tax_acc" where
  "concepto_retencion_step env rt st =
     (case st of (c, acc) \<Rightarrow>
        let impuesto = get_attr rt ''Impuesto'';
            importe' = safe_float env (get_attr rt ''Importe'');
            c' = c\<lparr>impuestos_retencion := dict_add impuesto importe' (impuestos_retencion c)\<rparr>
        in (c', retencion_totals impuesto importe' acc))"

text \<open>
  The body of the loop over the \<open>Concepto\<close> elements: the line item is built, its tax
  nodes are read (each one also added to the document totals) and it is appended to
  \<open>concepts\<close>.
\<close>

definition concepto_step ::
  "'a py_env \<Rightarrow> string \<Rightarrow> (string \<rightharpoonup> string) \<Rightarrow> element \<Rightarrow> 'a tax_acc \<times> 'a Concepto list
     \<Rightarrow> py_error + ('a::{zero,plus}) tax_acc \<times> 'a Concepto list" where
  "concepto_step env uuid' ns concepto st =
     (case st of (acc, concepts) \<Rightarrow>
        let c = \<lparr>Concepto.uuid = uuid',
                 clave_prod_serv = or_str (get_attr concepto ''ClaveProdServ'') '''',
                 cantidad = safe_float env (get_attr concepto ''Cantidad''),
                 clave_unidad = or_str (get_attr concepto ''ClaveUnidad'') '''',
                 unidad = or_str (get_attr concepto ''Unidad'') '''',
                 descripcion = or_str (get_attr concepto ''Descripcion'') '''',
                 valor_unitario = safe_float env (get_attr concepto ''ValorUnitario''),
                 importe = safe_float env (get_attr concepto ''Importe''),
                 Concepto.descuento = safe_float env (get_attr concepto ''Descuento''),
                 impuestos_traslado = [],
                 impuestos_retencion = []\<rparr>
        in bind_err (find_elem concepto ''cfdi:Impuestos'' ns) (\<lambda>imp_node.
             case imp_node of
               None \<Rightarrow> Inr (acc, concepts @ [c])
             | Some node \<Rightarrow>
                 bind_err (find_elem node ''cfdi:Traslados'' ns) (\<lambda>tras.
                 bind_err (case tras of
                             None \<Rightarrow> Inr (c, acc)
                           | Some t \<Rightarrow> bind_err (findall t ''cfdi:Traslado'' ns)
                                        (\<lambda>trs. Inr (fold (concepto_traslado_step env) trs (c, acc))))
                   (\<lambda>st1.
                 bind_err (find_elem node ''cfdi:Retenciones'' ns) (\<lambda>ret.
                 bind_err (case ret of
                             None \<Rightarrow> Inr st1
                           | Some r \<Rightarrow> bind_err (findall r ''cfdi:Retencion'' ns)
                                        (\<lambda>rts. Inr (fold (concepto_retencion_step env) rts st1)))
                   (\<lambda>st2. Inr (snd st2, concepts @ [fst st2])))))))"

fun conceptos_loop ::
  "'a py_env \<Rightarrow> string \<Rightarrow> (string \<rightharpoonup> string) \<Rightarrow> element list \<Rightarrow> 'a tax_acc \<times> 'a Concepto list
     \<Rightarrow> py_error + ('a::{zero,plus}) tax_acc \<times> 'a Concepto list" where
  "conceptos_loop env uuid' ns [] st = Inr st"
| "conceptos_loop env uuid' ns (concepto # rest) st =
     bind_err (concepto_step env uuid' ns concepto st) (conceptos_loop env uuid' ns rest)"

text \<open>The block \<open>Conceptos\<close>: the loop over the line items of the root, if it has any.\<close>

definition read_conceptos ::
  "'a py_env \<Rightarrow> string \<Rightarrow> (string \<rightharpoonup> string) \<Rightarrow> element \<Rightarrow> 'a tax_acc
     \<Rightarrow> py_error + ('a::{zero,plus}) tax_acc \<times> 'a Concepto list" where
  "read_conceptos env uuid' ns root acc =
     bind_err (find_elem root ''cfdi:Conceptos'' ns) (\<lambda>conceptos_parent.
       case conceptos_parent of
         None \<Rightarrow> Inr (acc, [])
       | Some cp \<Rightarrow>
           bind_err (findall cp ''cfdi:Concepto'' ns) (\<lambda>cs.
             conceptos_loop env uuid' ns cs (acc, [])))"

text \<open>The block \<open>UUID\<close>: the stamp identifier inside the complement, if there is one.\<close>

definition find_uuid :: "element \<Rightarrow> (string \<rightharpoonup> string) \<Rightarrow> py_error + string option" where
  "find_uuid root ns =
     bind_err (find_elem root ''cfdi:Complemento'' ns) (\<lambda>complemento.
       case complemento of
         None \<Rightarrow> Inr None
       | Some co \<Rightarrow>
           bind_err (find_elem co ''tfd:TimbreFiscalDigital'' ns) (\<lambda>timbre.
             Inr (case timbre of None \<Rightarrow> None | Some t \<Rightarrow> get_attr t ''UUID'')))"

text \<open>The warning attached to a version 3.3 document; its first six bytes are the UTF-8
  encoding of the warning sign and its variation selector.\<close>

definition warning_33 :: string where
  "warning_33 = [CHR 0xE2, CHR 0x9A, CHR 0xA0, CHR 0xEF, CHR 0xB8, CHR 0x8F]
     @ '' CFDI 3.3 detectado: procesado, pero se recomienda CFDI 4.0''"

text \<open>
  \<open>parse_cfdi(xml_path)\<close>. \<open>Inl\<close> is an exception that reaches the caller; the rejection
  result \<open>(None, [])\<close> is \<open>Inr (None, [])\<close>. Only the call of \<open>etree.parse\<close> stands inside
  the \<open>try\<close> block.
\<close>

definition parse_cfdi ::
  "'a py_env \<Rightarrow> string \<Rightarrow> py_error + (('a::{zero,plus}) CFDI option \<times> 'a Concepto list)" where
  "parse_cfdi env xml_path =
     (case etree_parse env xml_path of
        None \<Rightarrow> Inr (None, [])
      | Some root \<Rightarrow>
          let ns = build_nsmap root;
              version' = or_str (or_opt (get_attr root ''Version'') (get_attr root ''version'')) '''';
              tipo0 = or_str (or_opt (get_attr root ''TipoDeComprobante'')
                                     (get_attr root ''TipoComprobante'')) '''';
              tipo' = (if tipo0 \<noteq> [] then str_upper env tipo0 else '''')
          in if tipo' = ''P'' then Inr (None, [])
             else
               bind_err (find_uuid root ns) (\<lambda>uuid_opt.
               if \<not> truthy uuid_opt then Inr (None, [])
               else
                 let uuid' = or_str uuid_opt '''';
                     warnings' = (if startswith version' ''3.3'' then [warning_33] else []);
                     fecha_str = or_opt (get_attr root ''Fecha'') (get_attr root ''fecha'');
                     fecha' = (if truthy fecha_str
                               then parse_iso_datetime env (or_str fecha_str '''') else None);
                     serie' = or_str (get_attr root ''Serie'') '''';
                     folio' = or_str (get_attr root ''Folio'') '''';
                     subtotal' = safe_float env
                                   (or_opt (get_attr root ''SubTotal'') (get_attr root ''SubTotal''));
                     descuento' = safe_float env (get_attr root ''Descuento'');
                     total' = safe_float env (get_attr root ''Total'');
                     moneda' = or_str (get_attr root ''Moneda'') ''MXN'';
                     tipo_cambio' = safe_float env (get_attr root ''TipoCambio'');
                     forma_pago' = or_str (get_attr root ''FormaPago'') '''';
                     metodo_pago' = or_str (get_attr root ''MetodoPago'') '''';
                     lugar_expedicion' = or_str (get_attr root ''LugarExpedicion'') ''''
                 in
                 bind_err (find_elem root ''cfdi:Emisor'' ns) (\<lambda>emisor.
                 let emisor_rfc' = (case emisor of None \<Rightarrow> Some '''' | Some e \<Rightarrow> get_attr e ''Rfc'');
                     emisor_nombre' = (case emisor of None \<Rightarrow> Some '''' | Some e \<Rightarrow> get_attr e ''Nombre'');
                     emisor_regimen' = (case emisor of None \<Rightarrow> Some ''''
                                        | Some e \<Rightarrow> get_attr e ''RegimenFiscal'')
                 in
                 bind_err (find_elem root ''cfdi:Receptor'' ns) (\<lambda>receptor.
                 let receptor_rfc' = (case receptor of None \<Rightarrow> Some '''' | Some r \<Rightarrow> get_attr r ''Rfc'');
                     receptor_nombre' = (case receptor of None \<Rightarrow> Some ''''
                                         | Some r \<Rightarrow> get_attr r ''Nombre'');
                     receptor_regimen' = (case receptor of None \<Rightarrow> Some ''''
                                          | Some r \<Rightarrow> get_attr r ''RegimenFiscalReceptor'');
                     uso_cfdi' = (case receptor of None \<Rightarrow> Some '''' | Some r \<Rightarrow> get_attr r ''UsoCFDI'')
                 in
                 bind_err (doc_impuestos env root ns
                             \<lparr>acc_iva_trasladado = 0, acc_isr_retenido = 0,
                              acc_iva_retenido = 0, acc_ieps_total = 0\<rparr>) (\<lambda>acc1.
                 bind_err (read_conceptos env uuid' ns root acc1) (\<lambda>st.
                 let acc2 = fst st; concepts = snd st;
                     cfdi = \<lparr>CFDI.uuid = uuid',
                             fecha = fecha',
                             tipo = tipo',
                             serie = serie',
                             folio = folio',
                             emisor_rfc = or_str emisor_rfc' '''',
                             emisor_nombre = or_str emisor_nombre' '''',
                             emisor_regimen = or_str emisor_regimen' '''',
                             receptor_rfc = or_str receptor_rfc' '''',
                             receptor_nombre = or_str receptor_nombre' '''',
                             receptor_regimen = or_str receptor_regimen' '''',
                             uso_cfdi = or_str uso_cfdi' '''',
                             subtotal = subtotal',
                             CFDI.descuento = descuento',
                             total = total',
                             moneda = moneda',
                             tipo_cambio = tipo_cambio',
                             forma_pago = or_str (Some forma_pago') '''',
                             metodo_pago = or_str (Some metodo_pago') '''',
                             lugar_expedicion = or_str (Some lugar_expedicion') '''',
                             iva_trasladado = acc_iva_trasladado acc2,
                             isr_retenido = acc_isr_retenido acc2,
                             iva_retenido = acc_iva_retenido acc2,
                             ieps = acc_ieps_total acc2,
                             num_conceptos = int (length concepts),
                             version = version',
                             warnings = warnings',
                             clasificacion = ''No clasificado''\<rparr>
                 in Inr (Some cfdi, concepts)))))))"

section \<open>scanner.py\<close>

text \<open>
  The two signals of \<open>XMLScanner\<close>: \<open>progress(processed, invalid, duplicates, cfdi33,
  total)\<close> and \<open>finished(cfdis, concepts)\<close>. A run is described by the sequence of the
  signals it emits, in the order of emission.
\<close>

datatype 'a event =
  Progress int int int int int
| Finished "'a CFDI list" "'a Concepto list"

text \<open>The local variables of \<open>XMLScanner._run\<close>, and the signals emitted so far.\<close>

record 'a scan_state =
  st_processed :: int
  st_invalid_count :: int
  st_duplicates :: int
  st_cfdi33_count :: int
  st_uuids_seen :: "string set"
  st_cfdis :: "'a CFDI list"
  st_concepts_all :: "'a Concepto list"
  st_emitted :: "'a event list"

text \<open>
  The body of the loop of \<open>_run\<close> for the file at position \<open>idx\<close>. The call of
  \<open>parse_cfdi\<close> stands in no \<open>try\<close> block: an exception it raises leaves \<open>_run\<close>.
\<close>

definition file_step ::
  "'a py_env \<Rightarrow> string option \<Rightarrow> int \<Rightarrow> int \<Rightarrow> string \<Rightarrow> 'a scan_state
     \<Rightarrow> py_error + ('a::{zero,plus}) scan_state" where
  "file_step env user_rfc total_files idx file s =
     bind_err (parse_cfdi env file) (\<lambda>res.
       let s1 = (case fst res of
                   None \<Rightarrow> s\<lparr>st_invalid_count := st_invalid_count s + 1\<rparr>
                 | Some cfdi \<Rightarrow>
                     if CFDI.uuid cfdi \<in> st_uuids_seen s
                     then s\<lparr>st_duplicates := st_duplicates s + 1\<rparr>
                     else
                       let clasif = classify_cfdi env (Some cfdi) user_rfc;
                           cfdi' = cfdi\<lparr>clasificacion := clasif\<rparr>;
                           sa = s\<lparr>st_uuids_seen := insert (CFDI.uuid cfdi) (st_uuids_seen s)\<rparr>;
                           sb = (if startswith (version cfdi') ''3.3''
                                 then sa\<lparr>st_cfdi33_count := st_cfdi33_count sa + 1\<rparr> else sa)
                       in sb\<lparr>st_cfdis := st_cfdis sb @ [cfdi'],
                             st_concepts_all := st_concepts_all sb @ snd res\<rparr>);
           s2 = s1\<lparr>st_processed := idx\<rparr>
       in Inr (s2\<lparr>st_emitted := st_emitted s2 @
                   [Progress (st_processed s2) (st_invalid_count s2) (st_duplicates s2)
                             (st_cfdi33_count s2) total_files]\<rparr>))"

text \<open>
  The loop \<open>for idx, file in enumerate(files, start=1)\<close>. When a step raises, the loop
  ends with the exception and the state reached before that file.
\<close>

fun run_loop ::
  "'a py_env \<Rightarrow> string option \<Rightarrow> int \<Rightarrow> int \<Rightarrow> string list \<Rightarrow> 'a scan_state
     \<Rightarrow> py_error option \<times> ('a::{zero,plus}) scan_state" where
  "run_loop env user_rfc total_files idx [] s = (None, s)"
| "run_loop env user_rfc total_files idx (file # rest) s =
     (case file_step env user_rfc total_files idx file s of
        Inl err \<Rightarrow> (Some err, s)
      | Inr s' \<Rightarrow> run_loop env user_rfc total_files (idx + 1) rest s')"

text \<open>
  \<open>XMLScanner._run\<close> on \<open>files\<close>, the list that \<open>_collect_xml_files(self.paths)\<close>
  returned: the exception that ended the run, if any, and the signals emitted. The
  \<open>finished\<close> signal is emitted after the loop, so only when the loop ran to its end.
\<close>

definition run ::
  "'a py_env \<Rightarrow> string option \<Rightarrow> string list \<Rightarrow> py_error option \<times> ('a::{zero,plus}) event list" where
  "run env user_rfc files =
     (let total_files = int (length files);
          s0 = \<lparr>st_processed = 0, st_invalid_count = 0, st_duplicates = 0, st_cfdi33_count = 0,
                st_uuids_seen = {}, st_cfdis = [], st_concepts_all = [], st_emitted = []\<rparr>;
          r = run_loop env user_rfc total_files 1 files s0
      in case fst r of
           Some err \<Rightarrow> (Some err, st_emitted (snd r))
         | None \<Rightarrow> (None, st_emitted (snd r) @ [Finished (st_cfdis (snd r)) (st_concepts_all (snd r))]))"

text \<open>
  A sequence of progress signals in traversal order: the positions run from \<open>idx\<close>
  upwards, the three counters start no lower than \<open>lo\<close> and never decrease, and the
  total is \<open>total_files\<close> throughout.
\<close>

fun progress_chain :: "int \<times> int \<times> int \<Rightarrow> int \<Rightarrow> int \<Rightarrow> 'a event list \<Rightarrow> bool" where
  "progress_chain lo idx total_files [] = True"
| "progress_chain lo idx total_files (Progress p i d c t # rest) =
     (p = idx \<and> fst lo \<le> i \<and> fst (snd lo) \<le> d \<and> snd (snd lo) \<le> c \<and> t = total_files
      \<and> progress_chain (i, d, c) (idx + 1) total_files rest)"
| "progress_chain lo idx total_files (Finished cs ls # rest) = False"

section \<open>kpis.py\<close>

text \<open>The accumulators of the loop of \<open>compute_kpis\<close>.\<close>

record 'a kpi_acc =
  total_ingresos :: 'a
  total_egresos :: 'a
  total_iva_trasladado :: 'a
  total_isr_retenido :: 'a
  total_iva_retenido :: 'a
  total_ieps :: 'a
  count_ingresos :: int
  count_egresos :: int
  ingresos_por_mes :: "(string \<times> 'a) list"
  egresos_por_mes :: "(string \<times> 'a) list"
  clientes_counter :: "(string \<times> 'a) list"
  proveedores_counter :: "(string \<times> 'a) list"

definition kpi_step :: "'a CFDI \<Rightarrow> 'a kpi_acc \<Rightarrow> ('a::{zero,plus}) kpi_acc" where
  "kpi_step c a =
     (let clasif = clasificacion c;
          month' = month_key (fecha c);
          a1 = (if clasif = ''Ingresos'' then
                  a\<lparr>total_ingresos := total_ingresos a + total c,
                    count_ingresos := count_ingresos a + 1,
                    ingresos_por_mes := dict_add month' (total c) (ingresos_por_mes a),
                    clientes_counter := dict_add (receptor_rfc c) (total c) (clientes_counter a)\<rparr>
                else if clasif = ''Egresos'' then
                  a\<lparr>total_egresos := total_egresos a + total c,
                    count_egresos := count_egresos a + 1,
                    egresos_por_mes := dict_add month' (total c) (egresos_por_mes a),
                    proveedores_counter := dict_add (emisor_rfc c) (total c) (proveedores_counter a)\<rparr>
                else a)
      in a1\<lparr>total_iva_trasladado := total_iva_trasladado a1 + iva_trasladado c,
            total_isr_retenido := total_isr_retenido a1 + isr_retenido c,
            total_iva_retenido := total_iva_retenido a1 + iva_retenido c,
            total_ieps := total_ieps a1 + ieps c\<rparr>)"

definition kpi_init :: "('a::zero) kpi_acc" where
  "kpi_init = \<lparr>total_ingresos = 0, total_egresos = 0, total_iva_trasladado = 0,
               total_isr_retenido = 0, total_iva_retenido = 0, total_ieps = 0,
               count_ingresos = 0, count_egresos = 0,
               ingresos_por_mes = [], egresos_por_mes = [],
               clientes_counter = [], proveedores_counter = []\<rparr>"

text \<open>The loop \<open>for c in cfdis\<close>, from the initial accumulators.\<close>

definition kpi_loop :: "'a CFDI list \<Rightarrow> ('a::{zero,plus}) kpi_acc" where
  "kpi_loop cs = foldl (\<lambda>a c. kpi_step c a) kpi_init cs"

text \<open>
  \<open>sorted(items, key=lambda x: x[1], reverse=True)\<close>: descending by value, entries of
  equal value in their original order.
\<close>

fun insert_desc :: "'k \<times> 'a \<Rightarrow> ('k \<times> ('a::ord)) list \<Rightarrow> ('k \<times> 'a) list" where
  "insert_desc x [] = [x]"
| "insert_desc x (y # ys) = (if snd y < snd x then x # y # ys else y # insert_desc x ys)"

definition sorted_desc :: "('k \<times> ('a::ord)) list \<Rightarrow> ('k \<times> 'a) list" where
  "sorted_desc items = foldl (\<lambda>acc x. insert_desc x acc) [] items"

text \<open>The dictionary that \<open>compute_kpis\<close> returns, one field per key.\<close>

record 'a kpis =
  kpi_total_ingresos :: 'a
  kpi_total_egresos :: 'a
  kpi_neto :: 'a
  kpi_iva_trasladado :: 'a
  kpi_isr_retenido :: 'a
  kpi_iva_retenido :: 'a
  kpi_ieps :: 'a
  kpi_conteo_cfdi :: int
  kpi_ingresos_por_mes :: "(string \<times> 'a) list"
  kpi_egresos_por_mes :: "(string \<times> 'a) list"
  kpi_top_clientes :: "(string \<times> 'a) list"
  kpi_top_proveedores :: "(string \<times> 'a) list"
  kpi_invalidos :: int
  kpi_duplicados :: int
  kpi_cfdi33 :: int

definition compute_kpis ::
  "'a CFDI list \<Rightarrow> int \<Rightarrow> int \<Rightarrow> int \<Rightarrow> ('a::{zero,plus,minus,ord}) kpis" where
  "compute_kpis cs invalid_count duplicates_count cfdi33_count =
     (let a = kpi_loop cs;
          neto = total_ingresos a - total_egresos a;
          conteo = count_ingresos a + count_egresos a;
          top_clientes = take 5 (sorted_desc (clientes_counter a));
          top_proveedores = take 5 (sorted_desc (proveedores_counter a))
      in \<lparr>kpi_total_ingresos = total_ingresos a,
          kpi_total_egresos = total_egresos a,
          kpi_neto = neto,
          kpi_iva_trasladado = total_iva_trasladado a,
          kpi_isr_retenido = total_isr_retenido a,
          kpi_iva_retenido = total_iva_retenido a,
          kpi_ieps = total_ieps a,
          kpi_conteo_cfdi = conteo,
          kpi_ingresos_por_mes = ingresos_por_mes a,
          kpi_egresos_por_mes = egresos_por_mes a,
          kpi_top_clientes = top_clientes,
          kpi_top_proveedores = top_proveedores,
          kpi_invalidos = invalid_count,
          kpi_duplicados = duplicates_count,
          kpi_cfdi33 = cfdi33_count\<rparr>)"

section \<open>The document of tests/test\_parser.py\<close>

text \<open>
  The two string methods on the strings of the tests, which hold ASCII characters only.
  On such a string \<open>str.upper()\<close> replaces the letters a-z by A-Z and keeps every other
  character, and \<open>str.strip()\<close> removes from both ends the ASCII characters that are
  white space for Python: tab, line feed, vertical tab, form feed, carriage return, the
  four separators 0x1C-0x1F and the space. These two functions stand for the methods in
  the test environments only, and there on ASCII strings only.
\<close>

definition ascii_isspace :: "char \<Rightarrow> bool" where
  "ascii_isspace c = (c \<in> set [CHR 0x09, CHR 0x0A, CHR 0x0B, CHR 0x0C, CHR 0x0D,
                                CHR 0x1C, CHR 0x1D, CHR 0x1E, CHR 0x1F, CHR '' ''])"

definition ascii_upper_char :: "char \<Rightarrow> char" where
  "ascii_upper_char c =
     (case map_of (zip ''abcdefghijklmnopqrstuvwxyz'' ''ABCDEFGHIJKLMNOPQRSTUVWXYZ'') c of
        None \<Rightarrow> c
      | Some u \<Rightarrow> u)"

definition ascii_upper :: "string \<Rightarrow> string" where
  "ascii_upper s = map ascii_upper_char s"

definition ascii_strip :: "string \<Rightarrow> string" where
  "ascii_strip s = rev (dropWhile ascii_isspace (rev (dropWhile ascii_isspace s)))"

text \<open>
  \<open>float(s)\<close> and \<open>datetime.fromisoformat(s)\<close> on the strings of the test document:
  unsigned decimal integer literals, read as integers, and timestamps of the form
  \<open>YYYY-MM-DDTHH:MM:SS\<close>. Every other string is refused, as Python refuses a string
  that is no number or no date.
\<close>

definition digit_val :: "char \<Rightarrow> nat option" where
  "digit_val c = map_of (zip ''0123456789'' [0, 1, 2, 3, 4, 5, 6, 7, 8, 9]) c"

definition decimal_nat :: "string \<Rightarrow> nat option" where
  "decimal_nat s =
     (if s = [] then None
      else fold (\<lambda>c r. case r of
                         None \<Rightarrow> None
                       | Some n \<Rightarrow> (case digit_val c of None \<Rightarrow> None | Some d \<Rightarrow> Some (10 * n + d)))
                s (Some 0))"

definition decimal_literal :: "string \<Rightarrow> int option" where
  "decimal_literal s = map_option int (decimal_nat s)"

definition iso_timestamp :: "string \<Rightarrow> datetime option" where
  "iso_timestamp s =
     (if length s = 19 \<and> s ! 4 = CHR ''-'' \<and> s ! 7 = CHR ''-'' \<and> s ! 10 = CHR ''T''
         \<and> s ! 13 = CHR '':'' \<and> s ! 16 = CHR '':''
      then
        (case (decimal_nat (take 4 s), decimal_nat (take 2 (drop 5 s)),
               decimal_nat (take 2 (drop 8 s)), decimal_nat (take 2 (drop 11 s)),
               decimal_nat (take 2 (drop 14 s)), decimal_nat (take 2 (drop 17 s))) of
           (Some y, Some mo, Some d, Some h, Some mi, Some se) \<Rightarrow>
             if 1 \<le> y \<and> 1 \<le> mo \<and> mo \<le> 12 \<and> 1 \<le> d \<and> d \<le> 31 \<and> h < 24 \<and> mi < 60 \<and> se < 60
             then Some \<lparr>year = y, month = mo, day = d, hour = h, minute = mi, second = se\<rparr>
             else None
         | _ \<Rightarrow> None)
      else None)"

definition cfdi4_uri :: string where
  "cfdi4_uri = ''http://www.sat.gob.mx/cfd/4''"

definition tfd_uri :: string where
  "tfd_uri = ''http://www.sat.gob.mx/TimbreFiscalDigital''"

definition sample_ns :: "(string option \<times> string) list" where
  "sample_ns = [(Some ''cfdi'', cfdi4_uri), (Some ''tfd'', tfd_uri)]"

definition cfdi_tag :: "string \<Rightarrow> string" where
  "cfdi_tag name = ''{'' @ cfdi4_uri @ ''}'' @ name"

text \<open>\<open>SAMPLE_CFDI_40\<close>, as lxml parses it.\<close>

definition sample_root :: element where
  "sample_root =
     Element (cfdi_tag ''Comprobante'')
       [(''Version'', ''4.0''), (''Fecha'', ''2023-01-31T12:00:00''), (''Serie'', ''A''),
        (''Folio'', ''1''), (''TipoDeComprobante'', ''I''), (''SubTotal'', ''100''),
        (''Total'', ''116''), (''Moneda'', ''MXN''), (''FormaPago'', ''01''),
        (''MetodoPago'', ''PUE''), (''LugarExpedicion'', ''99999'')]
       sample_ns
       [Element (cfdi_tag ''Emisor'')
          [(''Rfc'', ''AAA010101AAA''), (''Nombre'', ''Emisor SA de CV''),
           (''RegimenFiscal'', ''601'')] sample_ns [],
        Element (cfdi_tag ''Receptor'')
          [(''Rfc'', ''BBB010101BBB''), (''Nombre'', ''Receptor SA de CV''),
           (''UsoCFDI'', ''G03''), (''RegimenFiscalReceptor'', ''601'')] sample_ns [],
        Element (cfdi_tag ''Conceptos'') [] sample_ns
          [Element (cfdi_tag ''Concepto'')
             [(''ClaveProdServ'', ''01010101''), (''Cantidad'', ''1''), (''ClaveUnidad'', ''E48''),
              (''Unidad'', ''Servicio''), (''Descripcion'', ''Servicio de prueba''),
              (''ValorUnitario'', ''100''), (''Importe'', ''100'')] sample_ns
             [Element (cfdi_tag ''Impuestos'') [] sample_ns
                [Element (cfdi_tag ''Traslados'') [] sample_ns
                   [Element (cfdi_tag ''Traslado'')
                      [(''Base'', ''100''), (''Impuesto'', ''002''), (''TipoFactor'', ''Tasa''),
                       (''TasaOCuota'', ''0.160000''), (''Importe'', ''16'')] sample_ns []]]]],
        Element (cfdi_tag ''Impuestos'') [] sample_ns
          [Element (cfdi_tag ''Traslados'') [] sample_ns
             [Element (cfdi_tag ''Traslado'')
                [(''Impuesto'', ''002''), (''TipoFactor'', ''Tasa''),
                 (''TasaOCuota'', ''0.160000''), (''Importe'', ''16'')] sample_ns []]],
        Element (cfdi_tag ''Complemento'') [] sample_ns
          [Element (''{'' @ tfd_uri @ ''}TimbreFiscalDigital'')
             [(''Version'', ''1.1''), (''UUID'', ''12345678-1234-1234-1234-123456789012''),
              (''FechaTimbrado'', ''2023-01-31T12:00:00''),
              (''RfcProvCertif'', ''AAA010101AAA'')] sample_ns []]]"

text \<open>A file system holding the test document as \<open>cfdi.xml\<close>, and nothing else.\<close>

definition sample_env :: "int py_env" where
  "sample_env =
     \<lparr>str_upper = ascii_upper,
      str_strip = ascii_strip,
      float_of = decimal_literal,
      fromisoformat = iso_timestamp,
      etree_parse = (\<lambda>path. if path = ''cfdi.xml'' then Some sample_root else None)\<rparr>"

text \<open>
  The same environment with the two string methods extended to two strings beyond ASCII,
  written in UTF-8: a tax-id that begins with a small n with tilde (bytes C3 B1), which
  \<open>str.upper()\<close> turns into the tax-id beginning with the capital letter (bytes C3 91)
  and which \<open>str.strip()\<close> leaves as it is, and the no-break space U+00A0 (bytes C2 A0),
  which is white space for \<open>str.strip()\<close>.
\<close>

definition enie_lower :: string where
  "enie_lower = CHR 0xC3 # CHR 0xB1 # ''aa010101aaa''"

definition enie_upper :: string where
  "enie_upper = CHR 0xC3 # CHR 0x91 # ''AA010101AAA''"

definition nbsp :: string where
  "nbsp = [CHR 0xC2, CHR 0xA0]"

definition unicode_env :: "int py_env" where
  "unicode_env =
     sample_env\<lparr>str_upper := (\<lambda>s. if s = enie_lower \<or> s = enie_upper then enie_upper
                                   else ascii_upper s),
                str_strip := (\<lambda>s. if s = nbsp then []
                                   else if s = enie_lower \<or> s = enie_upper then s
                                   else ascii_strip s)\<rparr>"

text \<open>The record and the line item that \<open>parse_cfdi\<close> returns for the test document.\<close>

definition sample_concepto :: "int Concepto" where
  "sample_concepto =
     \<lparr>Concepto.uuid = ''12345678-1234-1234-1234-123456789012'',
      clave_prod_serv = ''01010101'',
      cantidad = 1,
      clave_unidad = ''E48'',
      unidad = ''Servicio'',
      descripcion = ''Servicio de prueba'',
      valor_unitario = 100,
      importe = 100,
      Concepto.descuento = 0,
      impuestos_traslado = [(Some ''002'', 16)],
      impuestos_retencion = []\<rparr>"

definition sample_cfdi :: "int CFDI" where
  "sample_cfdi =
     \<lparr>CFDI.uuid = ''12345678-1234-1234-1234-123456789012'',
      fecha = Some \<lparr>year = 2023, month = 1, day = 31, hour = 12, minute = 0, second = 0\<rparr>,
      tipo = ''I'',
      serie = ''A'',
      folio = ''1'',
      emisor_rfc = ''AAA010101AAA'',
      emisor_nombre = ''Emisor SA de CV'',
      emisor_regimen = ''601'',
      receptor_rfc = ''BBB010101BBB'',
      receptor_nombre = ''Receptor SA de CV'',
      receptor_regimen = ''601'',
      uso_cfdi = ''G03'',
      subtotal = 100,
      CFDI.descuento = 0,
      total = 116,
      moneda = ''MXN'',
      tipo_cambio = 0,
      forma_pago = ''01'',
      metodo_pago = ''PUE'',
      lugar_expedicion = ''99999'',
      iva_trasladado = 32,
      isr_retenido = 0,
      iva_retenido = 0,
      ieps = 0,
      num_conceptos = 1,
      version = ''4.0'',
      warnings = [],
      clasificacion = ''No clasificado''\<rparr>"

text \<open>
  A well-formed XML document with no namespace declaration at all, stored as
  \<open>plain.xml\<close>: a single element \<open>Comprobante\<close> with the attributes \<open>Version\<close>
  (4.0) and \<open>TipoDeComprobante\<close> (I).
\<close>

definition plain_root :: element where
  "plain_root =
     Element ''Comprobante'' [(''Version'', ''4.0''), (''TipoDeComprobante'', ''I'')] [] []"

definition plain_env :: "int py_env" where
  "plain_env =
     \<lparr>str_upper = ascii_upper,
      str_strip = ascii_strip,
      float_of = decimal_literal,
      fromisoformat = iso_timestamp,
      etree_parse = (\<lambda>path. if path = ''plain.xml'' then Some plain_root else None)\<rparr>"

section \<open>The tax nodes of a document\<close>

text \<open>
  The nodes the parser visits, named after their place in the document: the children
  \<open>name\<close> of the first child \<open>group\<close> of the first child \<open>Impuestos\<close> of an element, and
  the \<open>Concepto\<close> children of the first child \<open>Conceptos\<close> of the root. A path that does
  not resolve selects nothing.
\<close>

definition first_child :: "element \<Rightarrow> string \<Rightarrow> (string \<rightharpoonup> string) \<Rightarrow> element option" where
  "first_child e path ns = (case find_elem e path ns of Inl _ \<Rightarrow> None | Inr r \<Rightarrow> r)"

definition children_named :: "element \<Rightarrow> string \<Rightarrow> (string \<rightharpoonup> string) \<Rightarrow> element list" where
  "children_named e path ns = (case findall e path ns of Inl _ \<Rightarrow> [] | Inr r \<Rightarrow> r)"

definition tax_nodes :: "element \<Rightarrow> string \<Rightarrow> string \<Rightarrow> (string \<rightharpoonup> string) \<Rightarrow> element list" where
  "tax_nodes e grp name ns =
     (case first_child e ''cfdi:Impuestos'' ns of
        None \<Rightarrow> []
      | Some node \<Rightarrow>
          (case first_child node grp ns of
             None \<Rightarrow> []
           | Some g \<Rightarrow> children_named g name ns))"

definition traslados_of :: "element \<Rightarrow> (string \<rightharpoonup> string) \<Rightarrow> element list" where
  "traslados_of e ns = tax_nodes e ''cfdi:Traslados'' ''cfdi:Traslado'' ns"

definition retenciones_of :: "element \<Rightarrow> (string \<rightharpoonup> string) \<Rightarrow> element list" where
  "retenciones_of e ns = tax_nodes e ''cfdi:Retenciones'' ''cfdi:Retencion'' ns"

definition conceptos_of :: "element \<Rightarrow> (string \<rightharpoonup> string) \<Rightarrow> element list" where
  "conceptos_of root ns =
     (case first_child root ''cfdi:Conceptos'' ns of
        None \<Rightarrow> []
      | Some cp \<Rightarrow> children_named cp ''cfdi:Concepto'' ns)"

text \<open>The amounts of the nodes that carry the tax code \<open>code\<close>, in document order.\<close>

definition importes :: "('a::zero) py_env \<Rightarrow> string \<Rightarrow> element list \<Rightarrow> 'a list" where
  "importes env code nodes =
     map (\<lambda>t. safe_float env (get_attr t ''Importe''))
       (filter (\<lambda>t. get_attr t ''Impuesto'' = Some code) nodes)"

text \<open>
  The amounts with tax code \<open>code\<close> on the two levels of the document with root
  \<open>root\<close>, under the namespace map the parser builds: the document-level transferred
  and withheld entries, and those of the line items, item after item. For the excise
  total each line item gives its transferred entries and then its withheld ones.
\<close>

definition document_traslados :: "('a::zero) py_env \<Rightarrow> string \<Rightarrow> element \<Rightarrow> 'a list" where
  "document_traslados env code root = importes env code (traslados_of root (build_nsmap root))"

definition document_retenciones :: "('a::zero) py_env \<Rightarrow> string \<Rightarrow> element \<Rightarrow> 'a list" where
  "document_retenciones env code root = importes env code (retenciones_of root (build_nsmap root))"

definition line_traslados :: "('a::zero) py_env \<Rightarrow> string \<Rightarrow> element \<Rightarrow> 'a list" where
  "line_traslados env code root =
     concat (map (\<lambda>e. importes env code (traslados_of e (build_nsmap root)))
               (conceptos_of root (build_nsmap root)))"

definition line_retenciones :: "('a::zero) py_env \<Rightarrow> string \<Rightarrow> element \<Rightarrow> 'a list" where
  "line_retenciones env code root =
     concat (map (\<lambda>e. importes env code (retenciones_of e (build_nsmap root)))
               (conceptos_of root (build_nsmap root)))"

definition line_ieps :: "('a::zero) py_env \<Rightarrow> element \<Rightarrow> 'a list" where
  "line_ieps env root =
     concat (map (\<lambda>e. importes env ''003'' (traslados_of e (build_nsmap root))
                        @ importes env ''003'' (retenciones_of e (build_nsmap root)))
               (conceptos_of root (build_nsmap root)))"

section \<open>A document with document-level withholdings\<close>

text \<open>
  The test document with more document-level tax nodes: next to the transferred VAT of
  16, a transferred excise entry (code 003) of 7, a withheld income tax entry (code 001)
  of 10 and a withheld excise entry (code 003) of 5. It is stored as \<open>ret.xml\<close>.
\<close>

definition retencion_impuestos :: element where
  "retencion_impuestos =
     Element (cfdi_tag ''Impuestos'') [] sample_ns
       [Element (cfdi_tag ''Traslados'') [] sample_ns
          [Element (cfdi_tag ''Traslado'')
             [(''Impuesto'', ''002''), (''TipoFactor'', ''Tasa''),
              (''TasaOCuota'', ''0.160000''), (''Importe'', ''16'')] sample_ns [],
           Element (cfdi_tag ''Traslado'')
             [(''Impuesto'', ''003''), (''Importe'', ''7'')] sample_ns []],
        Element (cfdi_tag ''Retenciones'') [] sample_ns
          [Element (cfdi_tag ''Retencion'')
             [(''Impuesto'', ''001''), (''Importe'', ''10'')] sample_ns [],
           Element (cfdi_tag ''Retencion'')
             [(''Impuesto'', ''003''), (''Importe'', ''5'')] sample_ns []]]"

definition retencion_root :: element where
  "retencion_root =
     Element (tag sample_root) (attrib sample_root) (nsmap sample_root)
       (map (\<lambda>e. if tag e = cfdi_tag ''Impuestos'' then retencion_impuestos else e)
          (children sample_root))"

definition retencion_env :: "int py_env" where
  "retencion_env =
     \<lparr>str_upper = ascii_upper,
      str_strip = ascii_strip,
      float_of = decimal_literal,
      fromisoformat = iso_timestamp,
      etree_parse = (\<lambda>path. if path = ''ret.xml'' then Some retencion_root else None)\<rparr>"

section \<open>Records for the aggregation\<close>

text \<open>
  Four classified records and an unclassified one, made from the record of the test
  document: two sales to \<open>BBB010101BBB\<close> in January 2023 (116 and 84) with a sale to
  \<open>CCC010101CCC\<close> in February (50) between them, a purchase from \<open>AAA010101AAA\<close> in
  January (16), and the record as parsed, with the label \<open>No clasificado\<close>.
\<close>

definition kpi_records :: "int CFDI list" where
  "kpi_records =
     [sample_cfdi\<lparr>clasificacion := ''Ingresos''\<rparr>,
      sample_cfdi\<lparr>clasificacion := ''Ingresos'', total := 50, receptor_rfc := ''CCC010101CCC'',
        fecha := Some \<lparr>year = 2023, month = 2, day = 1, hour = 9, minute = 30, second = 0\<rparr>\<rparr>,
      sample_cfdi\<lparr>clasificacion := ''Ingresos'', total := 84\<rparr>,
      sample_cfdi\<lparr>clasificacion := ''Egresos'', total := 16\<rparr>]"

section \<open>Facts about the helpers\<close>

lemma or_str_Some: "or_str (Some s) '''' = s"
  by (simp add: or_str_def)

lemmas string_eval = ascii_upper_def ascii_upper_char_def ascii_strip_def ascii_isspace_def
  or_str_def sample_env_def

lemma parse_sample:
  "parse_cfdi sample_env ''cfdi.xml'' = Inr (Some sample_cfdi, [sample_concepto])"
  by code_simp

lemma parse_plain: "parse_cfdi plain_env ''plain.xml'' = Inl SyntaxError"
  by code_simp

section \<open>The classifier\<close>

text \<open>
  C1, as amended. \<open>classify_cfdi\<close> returns one of the three labels for every input. It
  returns \<open>No clasificado\<close> when the record or the taxpayer id is absent or the taxpayer id
  is the empty string. Otherwise, with the taxpayer id and both party tax-ids trimmed and
  uppercased (by \<open>str.strip()\<close> and \<open>str.upper()\<close>, whatever these two methods do) and
  the document type uppercased (not trimmed), the rules are read in order: type \<open>I\<close> and
  taxpayer id equal to the issuer gives \<open>Ingresos\<close>; type \<open>I\<close> and taxpayer id equal to
  the receiver gives \<open>Egresos\<close>; everything else gives \<open>No clasificado\<close>.
\<close>

theorem classify_cfdi_rule:
  "classify_cfdi env cfdi user_rfc \<in> {''Ingresos'', ''Egresos'', ''No clasificado''}
   \<and> (cfdi = None \<or> user_rfc = None \<or> user_rfc = Some ''''
        \<longrightarrow> classify_cfdi env cfdi user_rfc = ''No clasificado'')
   \<and> (\<forall>c u. cfdi = Some c \<and> user_rfc = Some u \<and> u \<noteq> '''' \<longrightarrow>
         classify_cfdi env cfdi user_rfc =
           (if str_upper env (tipo c) = ''I''
               \<and> str_upper env (str_strip env u) = str_upper env (str_strip env (emisor_rfc c))
            then ''Ingresos''
            else if str_upper env (tipo c) = ''I''
               \<and> str_upper env (str_strip env u) = str_upper env (str_strip env (receptor_rfc c))
            then ''Egresos''
            else ''No clasificado''))"
proof (cases cfdi)
  case None
  then show ?thesis
    by (simp add: classify_cfdi_def)
next
  case (Some c)
  show ?thesis
  proof (cases user_rfc)
    case None
    with Some show ?thesis
      by (simp add: classify_cfdi_def)
  next
    case (Some u)
    with \<open>cfdi = Some c\<close> show ?thesis
      by (simp add: classify_cfdi_def or_str_Some Let_def)
  qed
qed

theorem classify_cfdi_rule_witness:
  "classify_cfdi sample_env (Some sample_cfdi) (Some '' aaa010101aaa '') = ''Ingresos''
   \<and> classify_cfdi sample_env (Some sample_cfdi) (Some ''bbb010101bbb'') = ''Egresos''
   \<and> classify_cfdi sample_env (Some sample_cfdi) (Some ''CCC010101CCC'') = ''No clasificado''
   \<and> classify_cfdi sample_env (Some (sample_cfdi\<lparr>tipo := ''E''\<rparr>)) (Some ''AAA010101AAA'') =
       ''No clasificado''
   \<and> classify_cfdi sample_env (None :: int CFDI option) (Some ''AAA010101AAA'') = ''No clasificado''
   \<and> classify_cfdi sample_env (Some sample_cfdi) (Some '''') = ''No clasificado''
   \<and> classify_cfdi unicode_env (Some (sample_cfdi\<lparr>emisor_rfc := enie_upper\<rparr>)) (Some enie_lower) =
       ''Ingresos''"
  using classify_cfdi_rule [of sample_env "Some sample_cfdi" "Some '' aaa010101aaa ''"]
    classify_cfdi_rule [of unicode_env "Some (sample_cfdi\<lparr>emisor_rfc := enie_upper\<rparr>)"
      "Some enie_lower"]
    classify_cfdi_rule [of sample_env "Some sample_cfdi" "Some ''bbb010101bbb''"]
    classify_cfdi_rule [of sample_env "Some sample_cfdi" "Some ''CCC010101CCC''"]
    classify_cfdi_rule [of sample_env "Some (sample_cfdi\<lparr>tipo := ''E''\<rparr>)" "Some ''AAA010101AAA''"]
    classify_cfdi_rule [of sample_env "None :: int CFDI option" "Some ''AAA010101AAA''"]
    classify_cfdi_rule [of sample_env "Some sample_cfdi" "Some ''''"]
  by (simp add: sample_cfdi_def string_eval unicode_env_def enie_lower_def enie_upper_def nbsp_def)

text \<open>
  The claim as stated takes every document type other than \<open>I\<close> to \<open>No clasificado\<close>. The
  code uppercases the type first: a record of type \<open>i\<close> issued by the taxpayer is
  \<open>Ingresos\<close>.
\<close>

theorem classify_cfdi_lowercase_type:
  "tipo (sample_cfdi\<lparr>tipo := ''i''\<rparr>) \<noteq> ''I''
   \<and> classify_cfdi sample_env (Some (sample_cfdi\<lparr>tipo := ''i''\<rparr>)) (Some ''AAA010101AAA'') =
       ''Ingresos''"
  by (simp add: classify_cfdi_def sample_cfdi_def string_eval)

text \<open>
  C2, as amended. A record of type \<open>I\<close> with issuer \<open>AAA010101AAA\<close> and receiver
  \<open>BBB010101BBB\<close>, such as the one parsed from the test document, is classified
  \<open>Egresos\<close> for the taxpayer id \<open>BBB010101BBB\<close> (the receiver) and \<open>Ingresos\<close> for the
  taxpayer id \<open>AAA010101AAA\<close> (the issuer). The two string methods enter through what
  they return on the three strings of the document: each of them is trimmed and in upper
  case already, so they return it unchanged.
\<close>

theorem classify_end_to_end:
  assumes "tipo c = ''I''"
    and "emisor_rfc c = ''AAA010101AAA''"
    and "receptor_rfc c = ''BBB010101BBB''"
    and "str_upper env ''I'' = ''I''"
    and "str_strip env ''AAA010101AAA'' = ''AAA010101AAA''"
    and "str_upper env ''AAA010101AAA'' = ''AAA010101AAA''"
    and "str_strip env ''BBB010101BBB'' = ''BBB010101BBB''"
    and "str_upper env ''BBB010101BBB'' = ''BBB010101BBB''"
  shows "classify_cfdi env (Some c) (Some ''BBB010101BBB'') = ''Egresos''
         \<and> classify_cfdi env (Some c) (Some ''AAA010101AAA'') = ''Ingresos''"
  using assms by (simp add: classify_cfdi_def or_str_def)

theorem classify_end_to_end_witness:
  "parse_cfdi sample_env ''cfdi.xml'' = Inr (Some sample_cfdi, [sample_concepto])
   \<and> total sample_cfdi = 116
   \<and> classify_cfdi sample_env (Some sample_cfdi) (Some ''BBB010101BBB'') = ''Egresos''
   \<and> classify_cfdi sample_env (Some sample_cfdi) (Some ''AAA010101AAA'') = ''Ingresos''"
  using classify_end_to_end [of sample_cfdi sample_env] parse_sample
  by (simp add: sample_cfdi_def string_eval)

text \<open>
  The claim as stated has the two labels the other way round: for the record of the test
  document it expects \<open>Ingresos\<close> for \<open>BBB010101BBB\<close> and \<open>Egresos\<close> for \<open>AAA010101AAA\<close>.
\<close>

theorem classify_end_to_end_swapped:
  "\<not> (classify_cfdi sample_env (Some sample_cfdi) (Some ''BBB010101BBB'') = ''Ingresos''
       \<and> classify_cfdi sample_env (Some sample_cfdi) (Some ''AAA010101AAA'') = ''Egresos'')"
  by (simp add: classify_cfdi_def sample_cfdi_def string_eval)

text \<open>
  C10. The emptiness check of \<open>classify_cfdi\<close> stands before the normalization. A
  taxpayer id that is not empty and holds white space only (\<open>str.strip()\<close> leaves nothing
  of it) is not treated as absent: on a record of type \<open>I\<close> whose issuer tax-id is empty
  the result is \<open>Ingresos\<close>, not \<open>No clasificado\<close>, since the trimmed taxpayer id and the
  issuer tax-id are both empty. Of the two string methods the proof uses that they
  return the empty string on the empty string, and that \<open>I\<close> is in upper case.
\<close>

theorem classify_cfdi_blank_rfc:
  assumes "u \<noteq> []"
    and "str_strip env u = []"
    and "tipo c = ''I''"
    and "emisor_rfc c = []"
    and "str_strip env [] = []"
    and "str_upper env [] = []"
    and "str_upper env ''I'' = ''I''"
  shows "classify_cfdi env (Some c) (Some u) = ''Ingresos''
         \<and> classify_cfdi env (Some c) (Some u) \<noteq> ''No clasificado''"
  using assms by (simp add: classify_cfdi_def or_str_def)

theorem classify_cfdi_blank_rfc_witness:
  "''  '' \<noteq> [] \<and> str_strip sample_env ''  '' = []
   \<and> classify_cfdi sample_env (Some (sample_cfdi\<lparr>emisor_rfc := []\<rparr>)) (Some ''  '') = ''Ingresos''
   \<and> classify_cfdi sample_env (Some (sample_cfdi\<lparr>emisor_rfc := []\<rparr>))
        (Some [CHR 0x09, CHR 0x0A, CHR 0x1F, CHR '' '']) = ''Ingresos''
   \<and> nbsp \<noteq> [] \<and> str_strip unicode_env nbsp = []
   \<and> classify_cfdi unicode_env (Some (sample_cfdi\<lparr>emisor_rfc := []\<rparr>)) (Some nbsp) = ''Ingresos''"
  using classify_cfdi_blank_rfc [of "''  ''" sample_env "sample_cfdi\<lparr>emisor_rfc := []\<rparr>"]
    classify_cfdi_blank_rfc [of "[CHR 0x09, CHR 0x0A, CHR 0x1F, CHR '' '']" sample_env
      "sample_cfdi\<lparr>emisor_rfc := []\<rparr>"]
    classify_cfdi_blank_rfc [of nbsp unicode_env "sample_cfdi\<lparr>emisor_rfc := []\<rparr>"]
  by (simp add: sample_cfdi_def string_eval unicode_env_def enie_lower_def nbsp_def)

section \<open>The aggregation\<close>

text \<open>
  The loop of \<open>compute_kpis\<close> from any accumulators: what each accumulator holds after
  the records \<open>cs\<close>. Sums are left folds in the order of the records, as the loop adds.
\<close>

lemma loop_total_ingresos:
  "total_ingresos (foldl (\<lambda>a c. kpi_step c a) a cs) =
     foldl (+) (total_ingresos a) (map total (filter (\<lambda>c. clasificacion c = ''Ingresos'') cs))"
  by (induction cs arbitrary: a) (simp_all add: kpi_step_def Let_def)

lemma loop_total_egresos:
  "total_egresos (foldl (\<lambda>a c. kpi_step c a) a cs) =
     foldl (+) (total_egresos a) (map total (filter (\<lambda>c. clasificacion c = ''Egresos'') cs))"
  by (induction cs arbitrary: a) (simp_all add: kpi_step_def Let_def)

lemma loop_count_ingresos:
  "count_ingresos (foldl (\<lambda>a c. kpi_step c a) a cs) =
     count_ingresos a + int (length (filter (\<lambda>c. clasificacion c = ''Ingresos'') cs))"
  by (induction cs arbitrary: a) (simp_all add: kpi_step_def Let_def)

lemma loop_count_egresos:
  "count_egresos (foldl (\<lambda>a c. kpi_step c a) a cs) =
     count_egresos a + int (length (filter (\<lambda>c. clasificacion c = ''Egresos'') cs))"
  by (induction cs arbitrary: a) (simp_all add: kpi_step_def Let_def)

lemma loop_iva_trasladado:
  "total_iva_trasladado (foldl (\<lambda>a c. kpi_step c a) a cs) =
     foldl (+) (total_iva_trasladado a) (map iva_trasladado cs)"
  by (induction cs arbitrary: a) (simp_all add: kpi_step_def Let_def)

lemma loop_isr_retenido:
  "total_isr_retenido (foldl (\<lambda>a c. kpi_step c a) a cs) =
     foldl (+) (total_isr_retenido a) (map isr_retenido cs)"
  by (induction cs arbitrary: a) (simp_all add: kpi_step_def Let_def)

lemma loop_iva_retenido:
  "total_iva_retenido (foldl (\<lambda>a c. kpi_step c a) a cs) =
     foldl (+) (total_iva_retenido a) (map iva_retenido cs)"
  by (induction cs arbitrary: a) (simp_all add: kpi_step_def Let_def)

lemma loop_ieps:
  "total_ieps (foldl (\<lambda>a c. kpi_step c a) a cs) = foldl (+) (total_ieps a) (map ieps cs)"
  by (induction cs arbitrary: a) (simp_all add: kpi_step_def Let_def)

lemma loop_ingresos_por_mes:
  "ingresos_por_mes (foldl (\<lambda>a c. kpi_step c a) a cs) =
     foldl (\<lambda>d c. dict_add (month_key (fecha c)) (total c) d) (ingresos_por_mes a)
       (filter (\<lambda>c. clasificacion c = ''Ingresos'') cs)"
  by (induction cs arbitrary: a) (simp_all add: kpi_step_def Let_def)

lemma loop_egresos_por_mes:
  "egresos_por_mes (foldl (\<lambda>a c. kpi_step c a) a cs) =
     foldl (\<lambda>d c. dict_add (month_key (fecha c)) (total c) d) (egresos_por_mes a)
       (filter (\<lambda>c. clasificacion c = ''Egresos'') cs)"
  by (induction cs arbitrary: a) (simp_all add: kpi_step_def Let_def)

lemma loop_clientes_counter:
  "clientes_counter (foldl (\<lambda>a c. kpi_step c a) a cs) =
     foldl (\<lambda>d c. dict_add (receptor_rfc c) (total c) d) (clientes_counter a)
       (filter (\<lambda>c. clasificacion c = ''Ingresos'') cs)"
  by (induction cs arbitrary: a) (simp_all add: kpi_step_def Let_def)

lemma loop_proveedores_counter:
  "proveedores_counter (foldl (\<lambda>a c. kpi_step c a) a cs) =
     foldl (\<lambda>d c. dict_add (emisor_rfc c) (total c) d) (proveedores_counter a)
       (filter (\<lambda>c. clasificacion c = ''Egresos'') cs)"
  by (induction cs arbitrary: a) (simp_all add: kpi_step_def Let_def)

text \<open>
  What a dictionary holds after the updates \<open>d[key(c)] += val(c)\<close> for the records
  \<open>cs\<close>, from the empty dictionary: its keys are the keys of the records in the order
  of their first occurrence, and the entry of a key is the sum, from zero and in the
  order of the records, of the values of the records with that key.
\<close>

lemma dict_add_entries:
  assumes "distinct ks"
  shows "dict_add k v (map (\<lambda>k'. (k', f k')) ks) =
           (if k \<in> set ks then map (\<lambda>k'. (k', if k' = k then f k' + v else f k')) ks
            else map (\<lambda>k'. (k', f k')) ks @ [(k, 0 + v)])"
  using assms by (induction ks) auto

lemma dict_fold_entries:
  "foldl (\<lambda>d c. dict_add (key c) (val c) d) [] cs =
     map (\<lambda>k. (k, foldl (+) 0 (map val (filter (\<lambda>c. key c = k) cs))))
       (rev (remdups (rev (map key cs))))"
proof (induction cs rule: rev_induct)
  case Nil
  show ?case by simp
next
  case (snoc c cs)
  let ?ks = "rev (remdups (rev (map key cs)))"
  let ?f = "\<lambda>k. foldl (+) 0 (map val (filter (\<lambda>c. key c = k) cs))"
  let ?g = "\<lambda>k. foldl (+) 0 (map val (filter (\<lambda>c'. key c' = k) (cs @ [c])))"
  have keys: "set ?ks = key ` set cs" and dist: "distinct ?ks"
    by simp_all
  have step: "foldl (\<lambda>d c. dict_add (key c) (val c) d) [] (cs @ [c]) =
                dict_add (key c) (val c) (map (\<lambda>k. (k, ?f k)) ?ks)"
    using snoc.IH by simp
  have g_same: "?g k = ?f k + val c" if "k = key c" for k
    using that by simp
  have g_other: "?g k = ?f k" if "k \<noteq> key c" for k
    using that by auto
  show ?case
  proof (cases "key c \<in> key ` set cs")
    case True
    have k1: "rev (remdups (rev (map key (cs @ [c])))) = ?ks"
      using True by simp
    have "dict_add (key c) (val c) (map (\<lambda>k. (k, ?f k)) ?ks) =
            map (\<lambda>k. (k, if k = key c then ?f k + val c else ?f k)) ?ks"
      using True keys by (simp add: dict_add_entries [OF dist])
    also have "\<dots> = map (\<lambda>k. (k, ?g k)) ?ks"
      by (rule map_cong [OF refl]) (use g_same g_other in auto)
    finally show ?thesis
      unfolding step k1 .
  next
    case False
    have k1: "rev (remdups (rev (map key (cs @ [c])))) = ?ks @ [key c]"
      using False by simp
    have empty: "filter (\<lambda>c'. key c' = key c) cs = []"
      using False by (simp add: filter_empty_conv) (metis imageI)
    have new: "?g (key c) = 0 + val c"
      by (simp add: empty)
    have d1: "dict_add (key c) (val c) (map (\<lambda>k. (k, ?f k)) ?ks) =
            map (\<lambda>k. (k, ?f k)) ?ks @ [(key c, 0 + val c)]"
      using False keys by (simp add: dict_add_entries [OF dist])
    have m1: "map (\<lambda>k. (k, ?f k)) ?ks = map (\<lambda>k. (k, ?g k)) ?ks"
    proof (rule map_cong [OF refl])
      fix k assume "k \<in> set ?ks"
      with keys have "k \<in> key ` set cs"
        by simp
      with False have "k \<noteq> key c"
        by blast
      then show "(k, ?f k) = (k, ?g k)"
        using g_other [of k] by simp
    qed
    have "map (\<lambda>k. (k, ?f k)) ?ks @ [(key c, 0 + val c)] = map (\<lambda>k. (k, ?g k)) (?ks @ [key c])"
      by (simp only: m1 new map_append list.map)
    then show ?thesis
      unfolding step k1 d1 .
  qed
qed

lemma kpi_loop_snoc: "kpi_loop (cs @ [c]) = kpi_step c (kpi_loop cs)"
  by (simp add: kpi_loop_def)

lemma kpi_step_unclassified:
  assumes "clasificacion c \<noteq> ''Ingresos''" and "clasificacion c \<noteq> ''Egresos''"
  shows "kpi_step c a =
           a\<lparr>total_iva_trasladado := total_iva_trasladado a + iva_trasladado c,
             total_isr_retenido := total_isr_retenido a + isr_retenido c,
             total_iva_retenido := total_iva_retenido a + iva_retenido c,
             total_ieps := total_ieps a + ieps c\<rparr>"
  using assms by (simp add: kpi_step_def Let_def)

text \<open>
  C6. In the snapshot of \<open>compute_kpis\<close>, \<open>neto\<close> is \<open>total_ingresos\<close> minus
  \<open>total_egresos\<close>, and \<open>conteo_cfdi\<close> is the number of records classified \<open>Ingresos\<close>
  plus the number classified \<open>Egresos\<close>; records with any other label are not counted.
\<close>

theorem compute_kpis_neto_conteo:
  "kpi_neto (compute_kpis cs invalid dup c33) =
     kpi_total_ingresos (compute_kpis cs invalid dup c33)
       - kpi_total_egresos (compute_kpis cs invalid dup c33)
   \<and> kpi_conteo_cfdi (compute_kpis cs invalid dup c33) =
       int (length (filter (\<lambda>c. clasificacion c = ''Ingresos'') cs))
         + int (length (filter (\<lambda>c. clasificacion c = ''Egresos'') cs))"
proof -
  have "count_ingresos (kpi_loop cs) =
          int (length (filter (\<lambda>c. clasificacion c = ''Ingresos'') cs))"
    by (simp add: kpi_loop_def loop_count_ingresos kpi_init_def)
  moreover have "count_egresos (kpi_loop cs) =
          int (length (filter (\<lambda>c. clasificacion c = ''Egresos'') cs))"
    by (simp add: kpi_loop_def loop_count_egresos kpi_init_def)
  ultimately show ?thesis
    by (simp add: compute_kpis_def Let_def)
qed

theorem compute_kpis_neto_conteo_witness:
  "kpi_neto (compute_kpis
       [sample_cfdi\<lparr>clasificacion := ''Ingresos''\<rparr>, sample_cfdi,
        sample_cfdi\<lparr>clasificacion := ''Egresos'', total := 16\<rparr>] 1 2 0) = 100
   \<and> kpi_conteo_cfdi (compute_kpis
       [sample_cfdi\<lparr>clasificacion := ''Ingresos''\<rparr>, sample_cfdi,
        sample_cfdi\<lparr>clasificacion := ''Egresos'', total := 16\<rparr>] 1 2 0) = 2"
  using compute_kpis_neto_conteo
    [of "[sample_cfdi\<lparr>clasificacion := ''Ingresos''\<rparr>, sample_cfdi,
          sample_cfdi\<lparr>clasificacion := ''Egresos'', total := 16\<rparr>]" 1 2 0]
  by (simp add: compute_kpis_def kpi_loop_def kpi_init_def kpi_step_def sample_cfdi_def Let_def)


text \<open>
  C7. Every record, whatever its label, adds its four document-level tax totals to the
  grand tax totals. Only the records classified \<open>Ingresos\<close> add their total to the income
  total, the income month buckets and the customer sums, and only those classified
  \<open>Egresos\<close> to the expense total, the expense month buckets and the supplier sums: a
  month bucket holds, for each month in which such a record falls (in the order of first
  occurrence), the sum of the totals of the records of that label and month, and a
  counterparty sum holds the same per counterparty tax-id (the receiver of a sale, the
  issuer of a purchase). A record with any other label leaves both directional totals,
  the count, the month buckets and the counterparty sums as they were, and still adds
  its taxes.
\<close>

theorem compute_kpis_contributions:
  "kpi_iva_trasladado (compute_kpis cs invalid dup c33) = foldl (+) 0 (map iva_trasladado cs)
   \<and> kpi_isr_retenido (compute_kpis cs invalid dup c33) = foldl (+) 0 (map isr_retenido cs)
   \<and> kpi_iva_retenido (compute_kpis cs invalid dup c33) = foldl (+) 0 (map iva_retenido cs)
   \<and> kpi_ieps (compute_kpis cs invalid dup c33) = foldl (+) 0 (map ieps cs)
   \<and> kpi_total_ingresos (compute_kpis cs invalid dup c33) =
       foldl (+) 0 (map total (filter (\<lambda>c. clasificacion c = ''Ingresos'') cs))
   \<and> kpi_total_egresos (compute_kpis cs invalid dup c33) =
       foldl (+) 0 (map total (filter (\<lambda>c. clasificacion c = ''Egresos'') cs))
   \<and> kpi_ingresos_por_mes (compute_kpis cs invalid dup c33) =
       map (\<lambda>m. (m, foldl (+) 0 (map total
                     (filter (\<lambda>c. clasificacion c = ''Ingresos'' \<and> month_key (fecha c) = m) cs))))
         (rev (remdups (rev (map (\<lambda>c. month_key (fecha c))
                               (filter (\<lambda>c. clasificacion c = ''Ingresos'') cs)))))
   \<and> kpi_egresos_por_mes (compute_kpis cs invalid dup c33) =
       map (\<lambda>m. (m, foldl (+) 0 (map total
                     (filter (\<lambda>c. clasificacion c = ''Egresos'' \<and> month_key (fecha c) = m) cs))))
         (rev (remdups (rev (map (\<lambda>c. month_key (fecha c))
                               (filter (\<lambda>c. clasificacion c = ''Egresos'') cs)))))
   \<and> clientes_counter (kpi_loop cs) =
       map (\<lambda>r. (r, foldl (+) 0 (map total
                     (filter (\<lambda>c. clasificacion c = ''Ingresos'' \<and> receptor_rfc c = r) cs))))
         (rev (remdups (rev (map receptor_rfc (filter (\<lambda>c. clasificacion c = ''Ingresos'') cs)))))
   \<and> proveedores_counter (kpi_loop cs) =
       map (\<lambda>r. (r, foldl (+) 0 (map total
                     (filter (\<lambda>c. clasificacion c = ''Egresos'' \<and> emisor_rfc c = r) cs))))
         (rev (remdups (rev (map emisor_rfc (filter (\<lambda>c. clasificacion c = ''Egresos'') cs)))))
   \<and> kpi_top_clientes (compute_kpis cs invalid dup c33) =
       take 5 (sorted_desc (clientes_counter (kpi_loop cs)))
   \<and> kpi_top_proveedores (compute_kpis cs invalid dup c33) =
       take 5 (sorted_desc (proveedores_counter (kpi_loop cs)))
   \<and> (clasificacion x \<noteq> ''Ingresos'' \<and> clasificacion x \<noteq> ''Egresos'' \<longrightarrow>
        kpi_total_ingresos (compute_kpis (cs @ [x]) invalid dup c33) =
          kpi_total_ingresos (compute_kpis cs invalid dup c33)
        \<and> kpi_total_egresos (compute_kpis (cs @ [x]) invalid dup c33) =
          kpi_total_egresos (compute_kpis cs invalid dup c33)
        \<and> kpi_conteo_cfdi (compute_kpis (cs @ [x]) invalid dup c33) =
          kpi_conteo_cfdi (compute_kpis cs invalid dup c33)
        \<and> kpi_ingresos_por_mes (compute_kpis (cs @ [x]) invalid dup c33) =
          kpi_ingresos_por_mes (compute_kpis cs invalid dup c33)
        \<and> kpi_egresos_por_mes (compute_kpis (cs @ [x]) invalid dup c33) =
          kpi_egresos_por_mes (compute_kpis cs invalid dup c33)
        \<and> clientes_counter (kpi_loop (cs @ [x])) = clientes_counter (kpi_loop cs)
        \<and> proveedores_counter (kpi_loop (cs @ [x])) = proveedores_counter (kpi_loop cs)
        \<and> kpi_iva_trasladado (compute_kpis (cs @ [x]) invalid dup c33) =
          kpi_iva_trasladado (compute_kpis cs invalid dup c33) + iva_trasladado x
        \<and> kpi_isr_retenido (compute_kpis (cs @ [x]) invalid dup c33) =
          kpi_isr_retenido (compute_kpis cs invalid dup c33) + isr_retenido x
        \<and> kpi_iva_retenido (compute_kpis (cs @ [x]) invalid dup c33) =
          kpi_iva_retenido (compute_kpis cs invalid dup c33) + iva_retenido x
        \<and> kpi_ieps (compute_kpis (cs @ [x]) invalid dup c33) =
          kpi_ieps (compute_kpis cs invalid dup c33) + ieps x)"
proof -
  have taxes:
    "kpi_iva_trasladado (compute_kpis cs invalid dup c33) = foldl (+) 0 (map iva_trasladado cs)"
    "kpi_isr_retenido (compute_kpis cs invalid dup c33) = foldl (+) 0 (map isr_retenido cs)"
    "kpi_iva_retenido (compute_kpis cs invalid dup c33) = foldl (+) 0 (map iva_retenido cs)"
    "kpi_ieps (compute_kpis cs invalid dup c33) = foldl (+) 0 (map ieps cs)"
    by (simp_all add: compute_kpis_def Let_def kpi_loop_def kpi_init_def
          loop_iva_trasladado loop_isr_retenido loop_iva_retenido loop_ieps)
  have directional:
    "kpi_total_ingresos (compute_kpis cs invalid dup c33) =
       foldl (+) 0 (map total (filter (\<lambda>c. clasificacion c = ''Ingresos'') cs))"
    "kpi_total_egresos (compute_kpis cs invalid dup c33) =
       foldl (+) 0 (map total (filter (\<lambda>c. clasificacion c = ''Egresos'') cs))"
    by (simp_all add: compute_kpis_def Let_def kpi_loop_def kpi_init_def
          loop_total_ingresos loop_total_egresos)
  have months:
    "kpi_ingresos_por_mes (compute_kpis cs invalid dup c33) =
       map (\<lambda>m. (m, foldl (+) 0 (map total
                     (filter (\<lambda>c. clasificacion c = ''Ingresos'' \<and> month_key (fecha c) = m) cs))))
         (rev (remdups (rev (map (\<lambda>c. month_key (fecha c))
                               (filter (\<lambda>c. clasificacion c = ''Ingresos'') cs)))))"
    "kpi_egresos_por_mes (compute_kpis cs invalid dup c33) =
       map (\<lambda>m. (m, foldl (+) 0 (map total
                     (filter (\<lambda>c. clasificacion c = ''Egresos'' \<and> month_key (fecha c) = m) cs))))
         (rev (remdups (rev (map (\<lambda>c. month_key (fecha c))
                               (filter (\<lambda>c. clasificacion c = ''Egresos'') cs)))))"
    by (simp_all only: compute_kpis_def Let_def kpis.simps kpi_loop_def
          loop_ingresos_por_mes loop_egresos_por_mes kpi_init_def kpi_acc.simps
          dict_fold_entries filter_filter)
  have parties:
    "clientes_counter (kpi_loop cs) =
       map (\<lambda>r. (r, foldl (+) 0 (map total
                     (filter (\<lambda>c. clasificacion c = ''Ingresos'' \<and> receptor_rfc c = r) cs))))
         (rev (remdups (rev (map receptor_rfc (filter (\<lambda>c. clasificacion c = ''Ingresos'') cs)))))"
    "proveedores_counter (kpi_loop cs) =
       map (\<lambda>r. (r, foldl (+) 0 (map total
                     (filter (\<lambda>c. clasificacion c = ''Egresos'' \<and> emisor_rfc c = r) cs))))
         (rev (remdups (rev (map emisor_rfc (filter (\<lambda>c. clasificacion c = ''Egresos'') cs)))))"
    by (simp_all only: kpi_loop_def loop_clientes_counter loop_proveedores_counter
          kpi_init_def kpi_acc.simps dict_fold_entries filter_filter)
  have top:
    "kpi_top_clientes (compute_kpis cs invalid dup c33) =
       take 5 (sorted_desc (clientes_counter (kpi_loop cs)))"
    "kpi_top_proveedores (compute_kpis cs invalid dup c33) =
       take 5 (sorted_desc (proveedores_counter (kpi_loop cs)))"
    by (simp_all add: compute_kpis_def Let_def)
  have unclassified:
    "kpi_total_ingresos (compute_kpis (cs @ [x]) invalid dup c33) =
          kpi_total_ingresos (compute_kpis cs invalid dup c33)
        \<and> kpi_total_egresos (compute_kpis (cs @ [x]) invalid dup c33) =
          kpi_total_egresos (compute_kpis cs invalid dup c33)
        \<and> kpi_conteo_cfdi (compute_kpis (cs @ [x]) invalid dup c33) =
          kpi_conteo_cfdi (compute_kpis cs invalid dup c33)
        \<and> kpi_ingresos_por_mes (compute_kpis (cs @ [x]) invalid dup c33) =
          kpi_ingresos_por_mes (compute_kpis cs invalid dup c33)
        \<and> kpi_egresos_por_mes (compute_kpis (cs @ [x]) invalid dup c33) =
          kpi_egresos_por_mes (compute_kpis cs invalid dup c33)
        \<and> clientes_counter (kpi_loop (cs @ [x])) = clientes_counter (kpi_loop cs)
        \<and> proveedores_counter (kpi_loop (cs @ [x])) = proveedores_counter (kpi_loop cs)
        \<and> kpi_iva_trasladado (compute_kpis (cs @ [x]) invalid dup c33) =
          kpi_iva_trasladado (compute_kpis cs invalid dup c33) + iva_trasladado x
        \<and> kpi_isr_retenido (compute_kpis (cs @ [x]) invalid dup c33) =
          kpi_isr_retenido (compute_kpis cs invalid dup c33) + isr_retenido x
        \<and> kpi_iva_retenido (compute_kpis (cs @ [x]) invalid dup c33) =
          kpi_iva_retenido (compute_kpis cs invalid dup c33) + iva_retenido x
        \<and> kpi_ieps (compute_kpis (cs @ [x]) invalid dup c33) =
          kpi_ieps (compute_kpis cs invalid dup c33) + ieps x"
    if "clasificacion x \<noteq> ''Ingresos''" and "clasificacion x \<noteq> ''Egresos''"
    using that by (simp add: compute_kpis_def Let_def kpi_loop_snoc kpi_step_unclassified)
  from taxes directional months parties top unclassified show ?thesis
    by blast
qed

theorem compute_kpis_contributions_witness:
  "clasificacion sample_cfdi \<noteq> ''Ingresos'' \<and> clasificacion sample_cfdi \<noteq> ''Egresos''
   \<and> kpi_ingresos_por_mes (compute_kpis (kpi_records @ [sample_cfdi]) 0 0 0) =
       [(''2023-01'', 200), (''2023-02'', 50)]
   \<and> kpi_egresos_por_mes (compute_kpis (kpi_records @ [sample_cfdi]) 0 0 0) = [(''2023-01'', 16)]
   \<and> clientes_counter (kpi_loop (kpi_records @ [sample_cfdi])) =
       [(''BBB010101BBB'', 200), (''CCC010101CCC'', 50)]
   \<and> proveedores_counter (kpi_loop (kpi_records @ [sample_cfdi])) = [(''AAA010101AAA'', 16)]
   \<and> kpi_top_clientes (compute_kpis (kpi_records @ [sample_cfdi]) 0 0 0) =
       [(''BBB010101BBB'', 200), (''CCC010101CCC'', 50)]
   \<and> kpi_top_proveedores (compute_kpis (kpi_records @ [sample_cfdi]) 0 0 0) =
       [(''AAA010101AAA'', 16)]
   \<and> kpi_total_ingresos (compute_kpis (kpi_records @ [sample_cfdi]) 0 0 0) = 250
   \<and> kpi_total_egresos (compute_kpis (kpi_records @ [sample_cfdi]) 0 0 0) = 16
   \<and> kpi_conteo_cfdi (compute_kpis (kpi_records @ [sample_cfdi]) 0 0 0) = 4
   \<and> kpi_iva_trasladado (compute_kpis kpi_records 0 0 0) = 128
   \<and> kpi_iva_trasladado (compute_kpis (kpi_records @ [sample_cfdi]) 0 0 0) = 160"
proof -
  have months:
    "month_key (Some \<lparr>year = 2023, month = 1, day = 31, hour = 12, minute = 0, second = 0\<rparr>) =
       ''2023-01''"
    "month_key (Some \<lparr>year = 2023, month = 2, day = 1, hour = 9, minute = 30, second = 0\<rparr>) =
       ''2023-02''"
    by code_simp+
  have loop: "kpi_loop kpi_records =
     \<lparr>total_ingresos = 250, total_egresos = 16, total_iva_trasladado = 128,
      total_isr_retenido = 0, total_iva_retenido = 0, total_ieps = 0,
      count_ingresos = 3, count_egresos = 1,
      ingresos_por_mes = [(''2023-01'', 200), (''2023-02'', 50)],
      egresos_por_mes = [(''2023-01'', 16)],
      clientes_counter = [(''BBB010101BBB'', 200), (''CCC010101CCC'', 50)],
      proveedores_counter = [(''AAA010101AAA'', 16)]\<rparr>"
    by (simp add: kpi_records_def kpi_loop_def kpi_init_def kpi_step_def sample_cfdi_def Let_def
          months [simplified])
  have base:
    "kpi_total_ingresos (compute_kpis kpi_records 0 0 0) = 250"
    "kpi_total_egresos (compute_kpis kpi_records 0 0 0) = 16"
    "kpi_conteo_cfdi (compute_kpis kpi_records 0 0 0) = 4"
    "kpi_ingresos_por_mes (compute_kpis kpi_records 0 0 0) = [(''2023-01'', 200), (''2023-02'', 50)]"
    "kpi_egresos_por_mes (compute_kpis kpi_records 0 0 0) = [(''2023-01'', 16)]"
    "kpi_iva_trasladado (compute_kpis kpi_records 0 0 0) = 128"
    using loop by (simp_all add: compute_kpis_def Let_def)
  have tops:
    "kpi_top_clientes (compute_kpis (kpi_records @ [sample_cfdi]) 0 0 0) =
       take 5 (sorted_desc (clientes_counter (kpi_loop (kpi_records @ [sample_cfdi]))))"
    "kpi_top_proveedores (compute_kpis (kpi_records @ [sample_cfdi]) 0 0 0) =
       take 5 (sorted_desc (proveedores_counter (kpi_loop (kpi_records @ [sample_cfdi]))))"
    by (simp_all add: compute_kpis_def Let_def)
  have sorted:
    "take 5 (sorted_desc [(''BBB010101BBB'', 200 :: int), (''CCC010101CCC'', 50)]) =
       [(''BBB010101BBB'', 200), (''CCC010101CCC'', 50)]"
    "take 5 (sorted_desc [(''AAA010101AAA'', 16 :: int)]) = [(''AAA010101AAA'', 16)]"
    by (simp_all add: sorted_desc_def)
  have parsed: "clasificacion sample_cfdi \<noteq> ''Ingresos''"
    "clasificacion sample_cfdi \<noteq> ''Egresos''" "iva_trasladado sample_cfdi = 32"
    by (simp_all add: sample_cfdi_def)
  from compute_kpis_contributions [of kpi_records 0 0 0 sample_cfdi] parsed(1,2)
  have tail:
    "kpi_total_ingresos (compute_kpis (kpi_records @ [sample_cfdi]) 0 0 0) =
       kpi_total_ingresos (compute_kpis kpi_records 0 0 0)"
    "kpi_total_egresos (compute_kpis (kpi_records @ [sample_cfdi]) 0 0 0) =
       kpi_total_egresos (compute_kpis kpi_records 0 0 0)"
    "kpi_conteo_cfdi (compute_kpis (kpi_records @ [sample_cfdi]) 0 0 0) =
       kpi_conteo_cfdi (compute_kpis kpi_records 0 0 0)"
    "kpi_ingresos_por_mes (compute_kpis (kpi_records @ [sample_cfdi]) 0 0 0) =
       kpi_ingresos_por_mes (compute_kpis kpi_records 0 0 0)"
    "kpi_egresos_por_mes (compute_kpis (kpi_records @ [sample_cfdi]) 0 0 0) =
       kpi_egresos_por_mes (compute_kpis kpi_records 0 0 0)"
    "clientes_counter (kpi_loop (kpi_records @ [sample_cfdi])) = clientes_counter (kpi_loop kpi_records)"
    "proveedores_counter (kpi_loop (kpi_records @ [sample_cfdi])) =
       proveedores_counter (kpi_loop kpi_records)"
    "kpi_iva_trasladado (compute_kpis (kpi_records @ [sample_cfdi]) 0 0 0) =
       kpi_iva_trasladado (compute_kpis kpi_records 0 0 0) + iva_trasladado sample_cfdi"
    by blast+
  show ?thesis
    using parsed by (simp add: tail tops base loop sorted)
qed

section \<open>The parser\<close>

lemma bind_err_Inr: "bind_err m f = Inr y \<longleftrightarrow> (\<exists>x. m = Inr x \<and> f x = Inr y)"
  by (cases m) (simp_all add: bind_err_def)

lemma first_child_find: "find_elem e path ns = Inr r \<Longrightarrow> first_child e path ns = r"
  by (simp add: first_child_def)

lemma children_named_findall: "findall e path ns = Inr r \<Longrightarrow> children_named e path ns = r"
  by (simp add: children_named_def)

lemma fold_doc_traslado:
  "acc_iva_trasladado (fold (doc_traslado_step env) ts acc) =
     foldl (+) (acc_iva_trasladado acc) (importes env ''002'' ts)
   \<and> acc_isr_retenido (fold (doc_traslado_step env) ts acc) = acc_isr_retenido acc
   \<and> acc_iva_retenido (fold (doc_traslado_step env) ts acc) = acc_iva_retenido acc
   \<and> acc_ieps_total (fold (doc_traslado_step env) ts acc) = acc_ieps_total acc"
  by (induction ts arbitrary: acc) (simp_all add: doc_traslado_step_def importes_def Let_def)

lemma fold_doc_retencion:
  "acc_iva_trasladado (fold (doc_retencion_step env) rs acc) = acc_iva_trasladado acc
   \<and> acc_isr_retenido (fold (doc_retencion_step env) rs acc) =
       foldl (+) (acc_isr_retenido acc) (importes env ''001'' rs)
   \<and> acc_iva_retenido (fold (doc_retencion_step env) rs acc) =
       foldl (+) (acc_iva_retenido acc) (importes env ''002'' rs)
   \<and> acc_ieps_total (fold (doc_retencion_step env) rs acc) =
       foldl (+) (acc_ieps_total acc) (importes env ''003'' rs)"
  by (induction rs arbitrary: acc)
     (simp_all add: doc_retencion_step_def retencion_totals_def importes_def)

lemma fold_concepto_traslado:
  "Concepto.uuid (fst (fold (concepto_traslado_step env) ts (c, acc))) = Concepto.uuid c
   \<and> acc_iva_trasladado (snd (fold (concepto_traslado_step env) ts (c, acc))) =
       foldl (+) (acc_iva_trasladado acc) (importes env ''002'' ts)
   \<and> acc_isr_retenido (snd (fold (concepto_traslado_step env) ts (c, acc))) = acc_isr_retenido acc
   \<and> acc_iva_retenido (snd (fold (concepto_traslado_step env) ts (c, acc))) = acc_iva_retenido acc
   \<and> acc_ieps_total (snd (fold (concepto_traslado_step env) ts (c, acc))) =
       foldl (+) (acc_ieps_total acc) (importes env ''003'' ts)"
  by (induction ts arbitrary: c acc) (simp_all add: concepto_traslado_step_def importes_def Let_def)

lemma fold_concepto_retencion:
  "Concepto.uuid (fst (fold (concepto_retencion_step env) ts (c, acc))) = Concepto.uuid c
   \<and> acc_iva_trasladado (snd (fold (concepto_retencion_step env) ts (c, acc))) = acc_iva_trasladado acc
   \<and> acc_isr_retenido (snd (fold (concepto_retencion_step env) ts (c, acc))) =
       foldl (+) (acc_isr_retenido acc) (importes env ''001'' ts)
   \<and> acc_iva_retenido (snd (fold (concepto_retencion_step env) ts (c, acc))) =
       foldl (+) (acc_iva_retenido acc) (importes env ''002'' ts)
   \<and> acc_ieps_total (snd (fold (concepto_retencion_step env) ts (c, acc))) =
       foldl (+) (acc_ieps_total acc) (importes env ''003'' ts)"
  by (induction ts arbitrary: c acc)
     (simp_all add: concepto_retencion_step_def retencion_totals_def importes_def Let_def)

lemma doc_impuestos_totals:
  assumes "doc_impuestos env root ns acc = Inr acc'"
  shows "acc_iva_trasladado acc' =
           foldl (+) (acc_iva_trasladado acc) (importes env ''002'' (traslados_of root ns))
         \<and> acc_isr_retenido acc' =
           foldl (+) (acc_isr_retenido acc) (importes env ''001'' (retenciones_of root ns))
         \<and> acc_iva_retenido acc' =
           foldl (+) (acc_iva_retenido acc) (importes env ''002'' (retenciones_of root ns))
         \<and> acc_ieps_total acc' =
           foldl (+) (acc_ieps_total acc) (importes env ''003'' (retenciones_of root ns))"
proof -
  from assms obtain impuestos_node where
    node: "find_elem root ''cfdi:Impuestos'' ns = Inr impuestos_node"
    by (auto simp: doc_impuestos_def bind_err_Inr)
  show ?thesis
  proof (cases impuestos_node)
    case None
    with assms node show ?thesis
      by (simp add: doc_impuestos_def bind_err_def traslados_of_def retenciones_of_def
            tax_nodes_def first_child_def importes_def)
  next
    case (Some n)
    with assms node obtain traslados acc1 retenciones where
      t: "find_elem n ''cfdi:Traslados'' ns = Inr traslados"
      and a1: "(case traslados of None \<Rightarrow> Inr acc
                | Some t \<Rightarrow> bind_err (findall t ''cfdi:Traslado'' ns)
                             (\<lambda>ts. Inr (fold (doc_traslado_step env) ts acc))) = Inr acc1"
      and r: "find_elem n ''cfdi:Retenciones'' ns = Inr retenciones"
      and a2: "(case retenciones of None \<Rightarrow> Inr acc1
                | Some r \<Rightarrow> bind_err (findall r ''cfdi:Retencion'' ns)
                             (\<lambda>rs. Inr (fold (doc_retencion_step env) rs acc1))) = Inr acc'"
      by (auto simp: doc_impuestos_def bind_err_Inr)
    have ts: "acc1 = fold (doc_traslado_step env) (traslados_of root ns) acc"
      using a1 node Some t
      by (auto simp: traslados_of_def tax_nodes_def first_child_def children_named_def
            bind_err_Inr split: option.splits)
    have rs: "acc' = fold (doc_retencion_step env) (retenciones_of root ns) acc1"
      using a2 node Some r
      by (auto simp: retenciones_of_def tax_nodes_def first_child_def children_named_def
            bind_err_Inr split: option.splits)
    show ?thesis
      unfolding rs ts by (simp add: fold_doc_traslado fold_doc_retencion)
  qed
qed

lemma concepto_step_result:
  assumes "concepto_step env u ns el (acc, cs) = Inr (acc', cs')"
  shows "(\<exists>c. cs' = cs @ [c] \<and> Concepto.uuid c = u)
         \<and> acc_iva_trasladado acc' =
           foldl (+) (acc_iva_trasladado acc) (importes env ''002'' (traslados_of el ns))
         \<and> acc_isr_retenido acc' =
           foldl (+) (acc_isr_retenido acc) (importes env ''001'' (retenciones_of el ns))
         \<and> acc_iva_retenido acc' =
           foldl (+) (acc_iva_retenido acc) (importes env ''002'' (retenciones_of el ns))
         \<and> acc_ieps_total acc' =
           foldl (+) (acc_ieps_total acc)
             (importes env ''003'' (traslados_of el ns) @ importes env ''003'' (retenciones_of el ns))"
proof -
  define c :: "'a Concepto" where
    "c = \<lparr>Concepto.uuid = u,
          clave_prod_serv = or_str (get_attr el ''ClaveProdServ'') '''',
          cantidad = safe_float env (get_attr el ''Cantidad''),
          clave_unidad = or_str (get_attr el ''ClaveUnidad'') '''',
          unidad = or_str (get_attr el ''Unidad'') '''',
          descripcion = or_str (get_attr el ''Descripcion'') '''',
          valor_unitario = safe_float env (get_attr el ''ValorUnitario''),
          importe = safe_float env (get_attr el ''Importe''),
          Concepto.descuento = safe_float env (get_attr el ''Descuento''),
          impuestos_traslado = [],
          impuestos_retencion = []\<rparr>"
  have cu: "Concepto.uuid c = u"
    by (simp add: c_def)
  note step = assms [unfolded concepto_step_def Let_def prod.case, folded c_def]
  from step obtain imp_node where
    node: "find_elem el ''cfdi:Impuestos'' ns = Inr imp_node"
    by (auto simp: bind_err_Inr)
  show ?thesis
  proof (cases imp_node)
    case None
    with step node cu show ?thesis
      by (auto simp: bind_err_def traslados_of_def
            retenciones_of_def tax_nodes_def first_child_def importes_def)
  next
    case (Some n)
    with step node obtain tras st1 ret st2 where
      t: "find_elem n ''cfdi:Traslados'' ns = Inr tras"
      and a1: "(case tras of None \<Rightarrow> Inr (c, acc)
                | Some t \<Rightarrow> bind_err (findall t ''cfdi:Traslado'' ns)
                     (\<lambda>trs. Inr (fold (concepto_traslado_step env) trs (c, acc)))) = Inr st1"
      and r: "find_elem n ''cfdi:Retenciones'' ns = Inr ret"
      and a2: "(case ret of None \<Rightarrow> Inr st1
                | Some r \<Rightarrow> bind_err (findall r ''cfdi:Retencion'' ns)
                     (\<lambda>rts. Inr (fold (concepto_retencion_step env) rts st1))) = Inr st2"
      and res: "acc' = snd st2" "cs' = cs @ [fst st2]"
      by (auto simp: bind_err_Inr)
    have ts: "st1 = fold (concepto_traslado_step env) (traslados_of el ns) (c, acc)"
      using a1 node Some t
      by (auto simp: traslados_of_def tax_nodes_def first_child_def children_named_def
            bind_err_Inr split: option.splits)
    have rs: "st2 = fold (concepto_retencion_step env) (retenciones_of el ns) st1"
      using a2 node Some r
      by (auto simp: retenciones_of_def tax_nodes_def first_child_def children_named_def
            bind_err_Inr split: option.splits)
    obtain c1 acc1 where st1: "st1 = (c1, acc1)"
      by (cases st1)
    have f1: "fold (concepto_traslado_step env) (traslados_of el ns) (c, acc) = (c1, acc1)"
      using ts st1 by simp
    have one: "Concepto.uuid c1 = u"
      "acc_iva_trasladado acc1 =
         foldl (+) (acc_iva_trasladado acc) (importes env ''002'' (traslados_of el ns))"
      "acc_isr_retenido acc1 = acc_isr_retenido acc"
      "acc_iva_retenido acc1 = acc_iva_retenido acc"
      "acc_ieps_total acc1 =
         foldl (+) (acc_ieps_total acc) (importes env ''003'' (traslados_of el ns))"
      using fold_concepto_traslado [of env "traslados_of el ns" c acc] cu
      unfolding f1 by simp_all
    show ?thesis
      using fold_concepto_retencion [of env "retenciones_of el ns" c1 acc1] one res rs st1
      by simp
  qed
qed

lemma conceptos_loop_result:
  assumes "conceptos_loop env u ns els (acc, cs) = Inr (acc', cs')"
  shows "(\<exists>new. cs' = cs @ new \<and> length new = length els \<and> (\<forall>c \<in> set new. Concepto.uuid c = u))
         \<and> acc_iva_trasladado acc' =
           foldl (+) (acc_iva_trasladado acc)
             (concat (map (\<lambda>e. importes env ''002'' (traslados_of e ns)) els))
         \<and> acc_isr_retenido acc' =
           foldl (+) (acc_isr_retenido acc)
             (concat (map (\<lambda>e. importes env ''001'' (retenciones_of e ns)) els))
         \<and> acc_iva_retenido acc' =
           foldl (+) (acc_iva_retenido acc)
             (concat (map (\<lambda>e. importes env ''002'' (retenciones_of e ns)) els))
         \<and> acc_ieps_total acc' =
           foldl (+) (acc_ieps_total acc)
             (concat (map (\<lambda>e. importes env ''003'' (traslados_of e ns)
                                @ importes env ''003'' (retenciones_of e ns)) els))"
  using assms
proof (induction els arbitrary: acc cs)
  case Nil
  then show ?case by simp
next
  case (Cons el els)
  from Cons.prems obtain acc1 cs1 where
    first: "concepto_step env u ns el (acc, cs) = Inr (acc1, cs1)"
    and rest: "conceptos_loop env u ns els (acc1, cs1) = Inr (acc', cs')"
    by (auto simp: bind_err_Inr)
  from concepto_step_result [OF first] obtain c where
    c: "cs1 = cs @ [c]" "Concepto.uuid c = u"
    and one: "acc_iva_trasladado acc1 =
           foldl (+) (acc_iva_trasladado acc) (importes env ''002'' (traslados_of el ns))"
      "acc_isr_retenido acc1 =
           foldl (+) (acc_isr_retenido acc) (importes env ''001'' (retenciones_of el ns))"
      "acc_iva_retenido acc1 =
           foldl (+) (acc_iva_retenido acc) (importes env ''002'' (retenciones_of el ns))"
      "acc_ieps_total acc1 =
           foldl (+) (acc_ieps_total acc)
             (importes env ''003'' (traslados_of el ns) @ importes env ''003'' (retenciones_of el ns))"
    by blast
  from Cons.IH [OF rest] obtain new where
    new: "cs' = cs1 @ new" "length new = length els" "\<forall>c \<in> set new. Concepto.uuid c = u"
    and more: "acc_iva_trasladado acc' =
           foldl (+) (acc_iva_trasladado acc1)
             (concat (map (\<lambda>e. importes env ''002'' (traslados_of e ns)) els))"
      "acc_isr_retenido acc' =
           foldl (+) (acc_isr_retenido acc1)
             (concat (map (\<lambda>e. importes env ''001'' (retenciones_of e ns)) els))"
      "acc_iva_retenido acc' =
           foldl (+) (acc_iva_retenido acc1)
             (concat (map (\<lambda>e. importes env ''002'' (retenciones_of e ns)) els))"
      "acc_ieps_total acc' =
           foldl (+) (acc_ieps_total acc1)
             (concat (map (\<lambda>e. importes env ''003'' (traslados_of e ns)
                                @ importes env ''003'' (retenciones_of e ns)) els))"
    by blast
  have "cs' = cs @ (c # new) \<and> length (c # new) = length (el # els)
        \<and> (\<forall>x \<in> set (c # new). Concepto.uuid x = u)"
    using c new by simp
  then have items: "\<exists>new. cs' = cs @ new \<and> length new = length (el # els)
        \<and> (\<forall>c \<in> set new. Concepto.uuid c = u)"
    by blast
  show ?case
    using items one more by simp
qed

lemma read_conceptos_result:
  assumes "read_conceptos env u ns root acc = Inr (acc', cs)"
  shows "length cs = length (conceptos_of root ns)
         \<and> (\<forall>c \<in> set cs. Concepto.uuid c = u)
         \<and> acc_iva_trasladado acc' =
           foldl (+) (acc_iva_trasladado acc)
             (concat (map (\<lambda>e. importes env ''002'' (traslados_of e ns)) (conceptos_of root ns)))
         \<and> acc_isr_retenido acc' =
           foldl (+) (acc_isr_retenido acc)
             (concat (map (\<lambda>e. importes env ''001'' (retenciones_of e ns)) (conceptos_of root ns)))
         \<and> acc_iva_retenido acc' =
           foldl (+) (acc_iva_retenido acc)
             (concat (map (\<lambda>e. importes env ''002'' (retenciones_of e ns)) (conceptos_of root ns)))
         \<and> acc_ieps_total acc' =
           foldl (+) (acc_ieps_total acc)
             (concat (map (\<lambda>e. importes env ''003'' (traslados_of e ns)
                                @ importes env ''003'' (retenciones_of e ns))
                        (conceptos_of root ns)))"
proof -
  from assms obtain parent where
    p: "find_elem root ''cfdi:Conceptos'' ns = Inr parent"
    by (auto simp: read_conceptos_def bind_err_Inr)
  show ?thesis
  proof (cases parent)
    case None
    with assms p show ?thesis
      by (simp add: read_conceptos_def bind_err_def conceptos_of_def first_child_def)
  next
    case (Some cp)
    with assms p obtain els where
      els: "findall cp ''cfdi:Concepto'' ns = Inr els"
      and loop: "conceptos_loop env u ns els (acc, []) = Inr (acc', cs)"
      by (auto simp: read_conceptos_def bind_err_Inr)
    have sel: "conceptos_of root ns = els"
      using p Some els by (simp add: conceptos_of_def first_child_def children_named_def)
    show ?thesis
      using conceptos_loop_result [OF loop] unfolding sel by auto
  qed
qed

lemma parse_cfdi_accepted:
  assumes "parse_cfdi env p = Inr (Some cfdi, concepts)"
  shows "\<exists>root acc1 acc2.
           etree_parse env p = Some root
           \<and> doc_impuestos env root (build_nsmap root)
                \<lparr>acc_iva_trasladado = 0, acc_isr_retenido = 0,
                 acc_iva_retenido = 0, acc_ieps_total = 0\<rparr> = Inr acc1
           \<and> read_conceptos env (CFDI.uuid cfdi) (build_nsmap root) root acc1 = Inr (acc2, concepts)
           \<and> iva_trasladado cfdi = acc_iva_trasladado acc2
           \<and> isr_retenido cfdi = acc_isr_retenido acc2
           \<and> iva_retenido cfdi = acc_iva_retenido acc2
           \<and> ieps cfdi = acc_ieps_total acc2
           \<and> num_conceptos cfdi = int (length concepts)"
proof (cases "etree_parse env p")
  case None
  with assms show ?thesis
    by (simp add: parse_cfdi_def)
next
  case (Some root)
  with assms show ?thesis
    by (auto simp: parse_cfdi_def Let_def bind_err_Inr split: if_splits)
qed

lemma sample_amounts:
  "document_traslados sample_env ''002'' sample_root = [16]"
  "line_traslados sample_env ''002'' sample_root = [16]"
  by code_simp+

lemma parse_retencion:
  "parse_cfdi retencion_env ''ret.xml'' =
     Inr (Some (sample_cfdi\<lparr>isr_retenido := 10, ieps := 5\<rparr>), [sample_concepto])"
  by code_simp

lemma retencion_amounts:
  "document_traslados retencion_env ''003'' retencion_root = [7]"
  "document_retenciones retencion_env ''001'' retencion_root = [10]"
  "document_retenciones retencion_env ''003'' retencion_root = [5]"
  "line_retenciones retencion_env ''001'' retencion_root = []"
  "line_ieps retencion_env retencion_root = []"
  by code_simp+

text \<open>
  C9. In an accepted parse the record's \<open>num_conceptos\<close> is the length of the returned
  list of line items, and every returned line item carries the UUID of the record.
\<close>

theorem parse_cfdi_line_items:
  assumes "parse_cfdi env p = Inr (Some cfdi, concepts)"
  shows "num_conceptos cfdi = int (length concepts)
         \<and> (\<forall>c \<in> set concepts. Concepto.uuid c = CFDI.uuid cfdi)"
proof -
  from parse_cfdi_accepted [OF assms] obtain root acc1 acc2 where
    items: "read_conceptos env (CFDI.uuid cfdi) (build_nsmap root) root acc1 = Inr (acc2, concepts)"
    and n: "num_conceptos cfdi = int (length concepts)"
    by blast
  from read_conceptos_result [OF items] have "\<forall>c \<in> set concepts. Concepto.uuid c = CFDI.uuid cfdi"
    by blast
  with n show ?thesis
    by simp
qed

theorem parse_cfdi_line_items_witness:
  "parse_cfdi sample_env ''cfdi.xml'' = Inr (Some sample_cfdi, [sample_concepto])
   \<and> num_conceptos sample_cfdi = 1
   \<and> Concepto.uuid sample_concepto = CFDI.uuid sample_cfdi"
  using parse_cfdi_line_items [OF parse_sample] parse_sample
  by simp

text \<open>
  The four tax totals of an accepted parse: the document-level amounts are added first,
  from zero, and the amounts of the line items are added on top, in document order.
\<close>

lemma parse_cfdi_totals:
  assumes "parse_cfdi env p = Inr (Some cfdi, concepts)"
    and "etree_parse env p = Some root"
  shows "iva_trasladado cfdi =
           foldl (+) (foldl (+) 0 (document_traslados env ''002'' root))
             (line_traslados env ''002'' root)"
    and "isr_retenido cfdi =
           foldl (+) (foldl (+) 0 (document_retenciones env ''001'' root))
             (line_retenciones env ''001'' root)"
    and "iva_retenido cfdi =
           foldl (+) (foldl (+) 0 (document_retenciones env ''002'' root))
             (line_retenciones env ''002'' root)"
    and "ieps cfdi =
           foldl (+) (foldl (+) 0 (document_retenciones env ''003'' root)) (line_ieps env root)"
proof -
  from parse_cfdi_accepted [OF assms(1)] assms(2) obtain acc1 acc2 where
    doc: "doc_impuestos env root (build_nsmap root)
            \<lparr>acc_iva_trasladado = 0, acc_isr_retenido = 0,
             acc_iva_retenido = 0, acc_ieps_total = 0\<rparr> = Inr acc1"
    and items: "read_conceptos env (CFDI.uuid cfdi) (build_nsmap root) root acc1 = Inr (acc2, concepts)"
    and fields: "iva_trasladado cfdi = acc_iva_trasladado acc2"
      "isr_retenido cfdi = acc_isr_retenido acc2"
      "iva_retenido cfdi = acc_iva_retenido acc2"
      "ieps cfdi = acc_ieps_total acc2"
    by auto
  note d = doc_impuestos_totals [OF doc]
  note l = read_conceptos_result [OF items]
  show "iva_trasladado cfdi =
           foldl (+) (foldl (+) 0 (document_traslados env ''002'' root))
             (line_traslados env ''002'' root)"
    using d l fields by (simp add: document_traslados_def line_traslados_def)
  show "isr_retenido cfdi =
           foldl (+) (foldl (+) 0 (document_retenciones env ''001'' root))
             (line_retenciones env ''001'' root)"
    using d l fields by (simp add: document_retenciones_def line_retenciones_def)
  show "iva_retenido cfdi =
           foldl (+) (foldl (+) 0 (document_retenciones env ''002'' root))
             (line_retenciones env ''002'' root)"
    using d l fields by (simp add: document_retenciones_def line_retenciones_def)
  show "ieps cfdi =
           foldl (+) (foldl (+) 0 (document_retenciones env ''003'' root)) (line_ieps env root)"
    using d l fields by (simp add: document_retenciones_def line_ieps_def)
qed

text \<open>
  C4. In an accepted parse each document-level tax total is the sum, taken from zero, of
  the document-level amounts followed by the amounts of every line item: the second
  source is added to the first, never replacing it. In particular, in an arithmetic
  where adding to zero changes nothing, a document with one document-level transferred
  VAT entry \<open>x\<close> and one line-level transferred VAT entry \<open>y\<close> has the transferred VAT
  total \<open>x + y\<close>; for the test document that is 16 + 16 = 32.
\<close>

theorem parse_cfdi_totals_additive:
  fixes env :: "('a::{zero,plus}) py_env"
  assumes "parse_cfdi env p = Inr (Some cfdi, concepts)"
    and "etree_parse env p = Some root"
  shows "iva_trasladado cfdi =
           foldl (+) (foldl (+) 0 (document_traslados env ''002'' root))
             (line_traslados env ''002'' root)
         \<and> isr_retenido cfdi =
           foldl (+) (foldl (+) 0 (document_retenciones env ''001'' root))
             (line_retenciones env ''001'' root)
         \<and> iva_retenido cfdi =
           foldl (+) (foldl (+) 0 (document_retenciones env ''002'' root))
             (line_retenciones env ''002'' root)
         \<and> ieps cfdi =
           foldl (+) (foldl (+) 0 (document_retenciones env ''003'' root)) (line_ieps env root)
         \<and> ((\<forall>v::'a. 0 + v = v)
              \<and> document_traslados env ''002'' root = [x]
              \<and> line_traslados env ''002'' root = [y]
            \<longrightarrow> iva_trasladado cfdi = x + y)"
  using parse_cfdi_totals [OF assms] by simp

theorem parse_cfdi_totals_additive_witness:
  "parse_cfdi sample_env ''cfdi.xml'' = Inr (Some sample_cfdi, [sample_concepto])
   \<and> document_traslados sample_env ''002'' sample_root = [16]
   \<and> line_traslados sample_env ''002'' sample_root = [16]
   \<and> iva_trasladado sample_cfdi = 16 + 16
   \<and> iva_trasladado sample_cfdi = 32"
proof -
  have on_disk: "etree_parse sample_env ''cfdi.xml'' = Some sample_root"
    by (simp add: sample_env_def)
  show ?thesis
    using parse_cfdi_totals_additive [OF parse_sample on_disk, of 16 16]
      parse_sample sample_amounts
    by (simp add: sample_cfdi_def)
qed

text \<open>
  C5, as amended. At the document level, of the transferred entries only VAT (code 002)
  is read: a document-level transferred entry with any other code, 001 and 003
  included, changes none of the four totals. The document-level withheld entries with
  codes 001, 002 and 003 are added to the withheld income tax, the withheld VAT and the
  excise total.
\<close>

theorem document_level_taxes:
  assumes "parse_cfdi env p = Inr (Some cfdi, concepts)"
    and "etree_parse env p = Some root"
  shows "doc_impuestos env root (build_nsmap root)
           \<lparr>acc_iva_trasladado = 0, acc_isr_retenido = 0,
            acc_iva_retenido = 0, acc_ieps_total = 0\<rparr> =
         Inr \<lparr>acc_iva_trasladado = foldl (+) 0 (document_traslados env ''002'' root),
              acc_isr_retenido = foldl (+) 0 (document_retenciones env ''001'' root),
              acc_iva_retenido = foldl (+) 0 (document_retenciones env ''002'' root),
              acc_ieps_total = foldl (+) 0 (document_retenciones env ''003'' root)\<rparr>
         \<and> (\<forall>t a. get_attr t ''Impuesto'' \<noteq> Some ''002'' \<longrightarrow> doc_traslado_step env t a = a)"
proof -
  from parse_cfdi_accepted [OF assms(1)] assms(2) obtain acc1 where
    doc: "doc_impuestos env root (build_nsmap root)
            \<lparr>acc_iva_trasladado = 0, acc_isr_retenido = 0,
             acc_iva_retenido = 0, acc_ieps_total = 0\<rparr> = Inr acc1"
    by auto
  have "acc1 = \<lparr>acc_iva_trasladado = foldl (+) 0 (document_traslados env ''002'' root),
              acc_isr_retenido = foldl (+) 0 (document_retenciones env ''001'' root),
              acc_iva_retenido = foldl (+) 0 (document_retenciones env ''002'' root),
              acc_ieps_total = foldl (+) 0 (document_retenciones env ''003'' root)\<rparr>"
    using doc_impuestos_totals [OF doc]
    by (cases acc1) (simp add: document_traslados_def document_retenciones_def)
  moreover have "\<forall>t a. get_attr t ''Impuesto'' \<noteq> Some ''002'' \<longrightarrow> doc_traslado_step env t a = a"
    by (simp add: doc_traslado_step_def)
  ultimately show ?thesis
    using doc by simp
qed

theorem document_level_taxes_witness:
  "doc_impuestos retencion_env retencion_root (build_nsmap retencion_root)
     \<lparr>acc_iva_trasladado = 0, acc_isr_retenido = 0, acc_iva_retenido = 0, acc_ieps_total = 0\<rparr> =
   Inr \<lparr>acc_iva_trasladado = 16, acc_isr_retenido = 10, acc_iva_retenido = 0, acc_ieps_total = 5\<rparr>
   \<and> document_traslados retencion_env ''003'' retencion_root = [7]"
proof -
  have on_disk: "etree_parse retencion_env ''ret.xml'' = Some retencion_root"
    by (simp add: retencion_env_def)
  have amounts: "document_traslados retencion_env ''002'' retencion_root = [16]"
    "document_retenciones retencion_env ''002'' retencion_root = []"
    by code_simp+
  show ?thesis
    using document_level_taxes [OF parse_retencion on_disk] amounts retencion_amounts
    by simp
qed

text \<open>
  The claim as stated lets no document-level entry with code 001 or 003 reach the totals.
  In the document \<open>ret.xml\<close> the only entries with these codes that are read are the
  document-level withheld ones, and the record has a withheld income tax of 10 and an
  excise total of 5.
\<close>

theorem document_level_withholdings_read:
  "document_retenciones retencion_env ''001'' retencion_root = [10]
   \<and> document_retenciones retencion_env ''003'' retencion_root = [5]
   \<and> line_retenciones retencion_env ''001'' retencion_root = []
   \<and> line_ieps retencion_env retencion_root = []
   \<and> parse_cfdi retencion_env ''ret.xml'' =
       Inr (Some (sample_cfdi\<lparr>isr_retenido := 10, ieps := 5\<rparr>), [sample_concepto])
   \<and> isr_retenido (sample_cfdi\<lparr>isr_retenido := 10, ieps := 5\<rparr>) = 10
   \<and> ieps (sample_cfdi\<lparr>isr_retenido := 10, ieps := 5\<rparr>) = 5"
  by (simp add: parse_retencion retencion_amounts)

section \<open>When the parser raises\<close>

text \<open>
  Once the prefix \<open>cfdi\<close> is in the namespace map, every lookup of the parser resolves:
  each block returns, and so does \<open>parse_cfdi\<close>. The prefix \<open>tfd\<close> is always in the map.
\<close>

lemma findall_resolved:
  assumes "ns ''cfdi'' = Some uri"
  shows "findall e (CHR ''c'' # CHR ''f'' # CHR ''d'' # CHR ''i'' # CHR '':'' # name) ns =
           Inr (filter (\<lambda>c. tag c = ''{'' @ uri @ ''}'' @ name) (children e))"
  using assms by (simp add: findall_def resolve_path_def)

lemma find_elem_resolved:
  assumes "ns ''cfdi'' = Some uri"
  shows "find_elem e (CHR ''c'' # CHR ''f'' # CHR ''d'' # CHR ''i'' # CHR '':'' # name) ns =
           Inr (case filter (\<lambda>c. tag c = ''{'' @ uri @ ''}'' @ name) (children e) of
                  [] \<Rightarrow> None | x # _ \<Rightarrow> Some x)"
  using assms by (simp add: find_elem_def findall_def resolve_path_def split: list.splits)

lemma build_nsmap_tfd: "\<exists>uri. build_nsmap root ''tfd'' = Some uri"
  by (auto simp: build_nsmap_def Let_def split: option.splits)

lemma find_uuid_returns:
  assumes "ns ''cfdi'' = Some uri" and "ns ''tfd'' = Some uri'"
  shows "\<exists>r. find_uuid root ns = Inr r"
proof -
  have "\<And>e. find_elem e ''tfd:TimbreFiscalDigital'' ns =
          Inr (case filter (\<lambda>c. tag c = ''{'' @ uri' @ ''}TimbreFiscalDigital'') (children e) of
                 [] \<Rightarrow> None | x # _ \<Rightarrow> Some x)"
    using assms(2) by (simp add: find_elem_def findall_def resolve_path_def split: list.splits)
  then show ?thesis
    using assms(1)
    by (simp add: find_uuid_def bind_err_def find_elem_resolved split: option.splits)
qed

lemma doc_impuestos_returns:
  assumes "ns ''cfdi'' = Some uri"
  shows "\<exists>r. doc_impuestos env root ns acc = Inr r"
  using assms
  by (simp add: doc_impuestos_def bind_err_def find_elem_resolved findall_resolved
        split: option.splits list.splits)

lemma concepto_step_returns:
  assumes "ns ''cfdi'' = Some uri"
  shows "\<exists>r. concepto_step env u ns el st = Inr r"
  using assms
  by (cases st)
     (simp add: concepto_step_def bind_err_def Let_def find_elem_resolved findall_resolved
        split: option.splits list.splits)

lemma conceptos_loop_returns:
  assumes "ns ''cfdi'' = Some uri"
  shows "\<exists>r. conceptos_loop env u ns els st = Inr r"
proof (induction els arbitrary: st)
  case Nil
  show ?case by simp
next
  case (Cons el els)
  from concepto_step_returns [of ns uri env u el st] assms obtain st1 where
    "concepto_step env u ns el st = Inr st1"
    by auto
  with Cons.IH [of st1] show ?case
    by (simp add: bind_err_def)
qed

lemma read_conceptos_returns:
  assumes "ns ''cfdi'' = Some uri"
  shows "\<exists>r. read_conceptos env u ns root acc = Inr r"
  using assms conceptos_loop_returns [of ns uri env u _ "(acc, [])"]
  by (simp add: read_conceptos_def bind_err_def find_elem_resolved findall_resolved
        split: option.splits list.splits)

lemma parse_cfdi_returns:
  assumes "\<And>root. etree_parse env p = Some root \<Longrightarrow> build_nsmap root ''cfdi'' \<noteq> None"
  shows "\<exists>r. parse_cfdi env p = Inr r"
proof (cases "etree_parse env p")
  case None
  then show ?thesis
    by (simp add: parse_cfdi_def)
next
  case (Some root)
  then have "build_nsmap root ''cfdi'' \<noteq> None"
    by (rule assms)
  then obtain uri where cfdi: "build_nsmap root ''cfdi'' = Some uri"
    by auto
  obtain uri' where tfd: "build_nsmap root ''tfd'' = Some uri'"
    using build_nsmap_tfd by blast
  from find_uuid_returns [of "build_nsmap root" uri uri' root] cfdi tfd obtain uuid_opt where
    u: "find_uuid root (build_nsmap root) = Inr uuid_opt"
    by auto
  from doc_impuestos_returns [of "build_nsmap root" uri env root] cfdi obtain acc1 where
    d: "doc_impuestos env root (build_nsmap root)
          \<lparr>acc_iva_trasladado = 0, acc_isr_retenido = 0,
           acc_iva_retenido = 0, acc_ieps_total = 0\<rparr> = Inr acc1"
    by blast
  from read_conceptos_returns [of "build_nsmap root" uri env "or_str uuid_opt []" root acc1] cfdi
  obtain st where
    c: "read_conceptos env (or_str uuid_opt []) (build_nsmap root) root acc1 = Inr st"
    by blast
  show ?thesis
    using Some u d c cfdi
    by (simp add: parse_cfdi_def Let_def bind_err_def find_elem_resolved)
qed

text \<open>
  C3, where the code departs from it. For a well-formed document whose root declares
  neither a default namespace nor the prefix \<open>cfdi\<close>, and whose type (uppercased when
  it is not empty, as the parser computes it) is not \<open>P\<close>, the
  first lookup of a \<open>cfdi:\<close> path raises \<open>SyntaxError\<close> outside the \<open>try\<close> block:
  \<open>parse_cfdi\<close> does not return the rejection result, the exception reaches the caller.
\<close>

theorem parse_cfdi_undeclared_prefix:
  assumes "etree_parse env p = Some root"
    and "build_nsmap root ''cfdi'' = None"
    and "(let tipo0 = or_str (or_opt (get_attr root ''TipoDeComprobante'')
                                      (get_attr root ''TipoComprobante'')) ''''
          in if tipo0 \<noteq> [] then str_upper env tipo0 else '''') \<noteq> ''P''"
  shows "parse_cfdi env p = Inl SyntaxError"
proof -
  from assms(2) have "find_elem root ''cfdi:Complemento'' (build_nsmap root) = Inl SyntaxError"
    by (simp add: find_elem_def findall_def resolve_path_def)
  then have "find_uuid root (build_nsmap root) = Inl SyntaxError"
    by (simp add: find_uuid_def bind_err_def)
  then show ?thesis
    using assms(1,3)
    by (simp add: parse_cfdi_def Let_def bind_err_def)
qed

theorem parse_cfdi_undeclared_prefix_witness:
  "etree_parse plain_env ''plain.xml'' = Some plain_root
   \<and> nsmap plain_root = []
   \<and> build_nsmap plain_root ''cfdi'' = None
   \<and> parse_cfdi plain_env ''plain.xml'' = Inl SyntaxError"
  using parse_cfdi_undeclared_prefix [of plain_env "''plain.xml''" plain_root]
  by (simp add: plain_env_def plain_root_def get_attr_def build_nsmap_def or_opt_def
        truthy_def or_str_def ascii_upper_def ascii_upper_char_def)

section \<open>The batch run\<close>

text \<open>
  A run in which no call of \<open>parse_cfdi\<close> raises: one progress signal per file, in
  traversal order, with counters that never decrease and a constant total, and then the
  \<open>finished\<close> signal, once and last.
\<close>

lemma file_step_progress:
  assumes "parse_cfdi env f = Inr r"
  shows "\<exists>s1. file_step env u total_files idx f s = Inr s1
           \<and> st_emitted s1 = st_emitted s @
               [Progress idx (st_invalid_count s1) (st_duplicates s1) (st_cfdi33_count s1) total_files]
           \<and> st_invalid_count s \<le> st_invalid_count s1
           \<and> st_duplicates s \<le> st_duplicates s1
           \<and> st_cfdi33_count s \<le> st_cfdi33_count s1"
  using assms
  by (cases "fst r") (simp_all add: file_step_def bind_err_def Let_def)

lemma run_loop_progress:
  assumes "\<forall>f \<in> set files. \<exists>r. parse_cfdi env f = Inr r"
  shows "\<exists>s' ps. run_loop env u total_files idx files s = (None, s')
           \<and> st_emitted s' = st_emitted s @ ps
           \<and> length ps = length files
           \<and> progress_chain (st_invalid_count s, st_duplicates s, st_cfdi33_count s)
                idx total_files ps"
  using assms
proof (induction files arbitrary: idx s)
  case Nil
  then show ?case by simp
next
  case (Cons f files)
  from Cons.prems obtain r where r: "parse_cfdi env f = Inr r"
    by auto
  from file_step_progress [OF r, of u total_files idx s] obtain s1 where
    step: "file_step env u total_files idx f s = Inr s1"
    and emitted: "st_emitted s1 = st_emitted s @
               [Progress idx (st_invalid_count s1) (st_duplicates s1) (st_cfdi33_count s1) total_files]"
    and mono: "st_invalid_count s \<le> st_invalid_count s1"
      "st_duplicates s \<le> st_duplicates s1"
      "st_cfdi33_count s \<le> st_cfdi33_count s1"
    by blast
  from Cons.prems have "\<forall>f \<in> set files. \<exists>r. parse_cfdi env f = Inr r"
    by simp
  from Cons.IH [OF this, of "idx + 1" s1] obtain s' ps where
    rest: "run_loop env u total_files (idx + 1) files s1 = (None, s')"
    and out: "st_emitted s' = st_emitted s1 @ ps"
    and len: "length ps = length files"
    and chain: "progress_chain (st_invalid_count s1, st_duplicates s1, st_cfdi33_count s1)
                  (idx + 1) total_files ps"
    by blast
  let ?ps = "Progress idx (st_invalid_count s1) (st_duplicates s1) (st_cfdi33_count s1) total_files # ps"
  have "run_loop env u total_files idx (f # files) s = (None, s')"
    using step rest by simp
  moreover have "st_emitted s' = st_emitted s @ ?ps"
    using out emitted by simp
  moreover have "length ?ps = length (f # files)"
    using len by simp
  moreover have "progress_chain (st_invalid_count s, st_duplicates s, st_cfdi33_count s)
                   idx total_files ?ps"
    using chain mono by simp
  ultimately show ?case
    by blast
qed

lemma run_without_exception:
  assumes "\<forall>f \<in> set files. \<exists>r. parse_cfdi env f = Inr r"
  shows "\<exists>ps cs ls. run env u files = (None, ps @ [Finished cs ls])
           \<and> length ps = length files
           \<and> progress_chain (0, 0, 0) 1 (int (length files)) ps"
proof -
  let ?s0 = "\<lparr>st_processed = 0, st_invalid_count = 0, st_duplicates = 0, st_cfdi33_count = 0,
               st_uuids_seen = {}, st_cfdis = [], st_concepts_all = [], st_emitted = []\<rparr>"
  from run_loop_progress [OF assms, of u "int (length files)" 1 ?s0] obtain s' ps where
    "run_loop env u (int (length files)) 1 files ?s0 = (None, s')"
    "st_emitted s' = ps" "length ps = length files"
    "progress_chain (0, 0, 0) 1 (int (length files)) ps"
    by auto
  then show ?thesis
    by (auto simp: run_def Let_def)
qed

lemma run_declared_prefix:
  assumes "\<forall>f \<in> set files. \<forall>root. etree_parse env f = Some root \<longrightarrow> build_nsmap root ''cfdi'' \<noteq> None"
  shows "\<exists>ps cs ls. run env u files = (None, ps @ [Finished cs ls])
           \<and> length ps = length files
           \<and> progress_chain (0, 0, 0) 1 (int (length files)) ps"
proof (rule run_without_exception)
  show "\<forall>f \<in> set files. \<exists>r. parse_cfdi env f = Inr r"
    using assms parse_cfdi_returns [of env] by blast
qed

text \<open>
  C8, where the code departs from it. A run over three files whose second file makes
  \<open>parse_cfdi\<close> raise emits the progress signal of the first file only and no
  \<open>finished\<close> signal: the exception ends \<open>_run\<close>.
\<close>

theorem run_aborts_on_exception:
  "run plain_env (Some ''AAA010101AAA'') [''missing.xml'', ''plain.xml'', ''other.xml''] =
     (Some SyntaxError, [Progress 1 1 0 0 3])"
  by code_simp

end
